theory Spec2Isabelle
  imports Complex_Main
begin

section \<open>Data model of the monitoring engine (src/cpu_core.py)\<close>

text \<open>
  Python floats are modelled as \<open>real\<close> (rounding is not modelled), Python ints as
  \<open>int\<close>, strings as \<open>string\<close>, dictionaries as maps, and the mutable
  \<open>ProcessInfo\<close> objects as addresses into a store, so that an assignment to a field
  is seen through every reference to the object. A leading underscore of a Python name
  is dropped, since an Isabelle name cannot start with one.
  Every call of \<open>time.time()\<close> and \<open>datetime.now()\<close> is a parameter of the function
  that makes it; no order between two readings is assumed, as the wall clock may be
  set back between two calls.
\<close>

type_synonym pid = int

text \<open>
  A \<open>ProcessInfo\<close> object is mutable and shared: the cache and the published list
  hold references to the same objects. A reference is an address of the engine's
  store of objects.
\<close>

type_synonym ref = nat

text \<open>The dataclass \<open>ProcessInfo\<close> (lines 13-24).\<close>

record ProcessInfo =
  name :: string
  pid :: pid
  cpu_percent :: real
  memory_percent :: real
  username :: string
  status :: string
  command :: string
  create_time :: real
  threads :: int
  avg_cpu_percent :: real

text \<open>The exceptions of psutil the engine tells apart; every other one is \<open>OtherError\<close>.\<close>

datatype error = NoSuchProcess | AccessDenied | OtherError

text \<open>
  A \<open>psutil.Process\<close> object, as the answers the operating system gives to the
  calls the engine makes on it; \<open>info_cpu_percent\<close> is the value
  \<open>p.info['cpu_percent']\<close> prefetched by \<open>psutil.process_iter\<close>. A call made
  twice during one read of the process gets the same answer.
\<close>

record process =
  proc_pid :: pid
  info_cpu_percent :: "real option"
  proc_name :: "error + string"
  proc_cpu_percent :: "error + real"
  proc_memory_percent :: "error + real"
  proc_username :: "error + string"
  proc_cmdline :: "error + string list"
  proc_exe :: "error + string"
  proc_create_time :: "error + real"
  proc_num_threads :: "error + int"

text \<open>
  An entry of \<open>process_cache\<close>: the dictionary with keys \<open>info\<close>, a reference to
  a \<open>ProcessInfo\<close> object, and \<open>timestamp\<close>.
\<close>

record cache_entry =
  info :: ref
  timestamp :: real

text \<open>The dictionary \<open>history_data\<close> with its three parallel lists.\<close>

record history_data =
  cpu :: "real list"
  memory :: "real list"
  timestamps :: "real list"

text \<open>
  The dictionary \<open>system_data\<close>; the two nested dictionaries are empty (\<open>None\<close>)
  until the first update.
\<close>

record system_data =
  sys_cpu_percent :: real
  sys_memory_percent :: real
  sys_cpu_freq :: real
  sys_cpu_count :: "int option"
  sys_cpu_stats :: "(real \<times> real \<times> real) option"
  sys_memory_stats :: "(real \<times> real \<times> real) option"

text \<open>What one run of \<open>_update_system_stats\<close> reads from psutil and the clock.\<close>

record sys_reading =
  r_cpu_percent :: real
  r_memory_percent :: real
  r_memory_total :: real
  r_memory_available :: real
  r_memory_used :: real
  r_cpu_freq :: "real option"
  r_user :: real
  r_system :: real
  r_idle :: real
  r_now :: real

text \<open>
  The attributes of \<open>CPUMonitorCore\<close> that the engine reads and writes, and the
  store of the \<open>ProcessInfo\<close> objects it has built: \<open>heap\<close> gives the object at
  an address, \<open>next_ref\<close> is the first address not yet in use. \<open>process_data\<close> and
  the cache hold references into this store.
\<close>

record CPUMonitorCore =
  threshold :: real
  running :: bool
  update_interval :: real
  update_event :: bool
  process_data :: "ref list"
  system_data :: system_data
  history_data :: history_data
  update_queue :: "bool list"
  process_cpu_history :: "pid \<rightharpoonup> (real \<times> real) list"
  process_cache :: "pid \<rightharpoonup> cache_entry"
  last_cache_cleanup :: real
  heap :: "ref \<Rightarrow> ProcessInfo"
  next_ref :: ref

text \<open>The three attributes set once in \<open>__init__\<close> and never written again.\<close>

definition history_max_points :: nat where
  "history_max_points = 100"

definition history_window :: real where
  "history_window = 180"

definition cache_ttl :: real where
  "cache_ttl = 5"

section \<open>CPU history tracker\<close>

text \<open>\<open>_cleanup_process_history\<close> (lines 115-129), at clock reading \<open>current_time\<close>.\<close>

definition cleanup_process_history :: "CPUMonitorCore \<Rightarrow> real \<Rightarrow> CPUMonitorCore" where
  "cleanup_process_history s current_time =
     (let cutoff_time = current_time - history_window
      in s\<lparr>process_cpu_history :=
             (\<lambda>p. case process_cpu_history s p of
                     None \<Rightarrow> None
                   | Some history \<Rightarrow>
                       (let history' = filter (\<lambda>(t, c). t \<ge> cutoff_time) history
                        in if history' \<noteq> [] then Some history' else None))\<rparr>)"

text \<open>\<open>_update_process_cpu_history\<close> (lines 131-137).\<close>

definition update_process_cpu_history ::
  "CPUMonitorCore \<Rightarrow> pid \<Rightarrow> real \<Rightarrow> real \<Rightarrow> CPUMonitorCore" where
  "update_process_cpu_history s p cpu_pct current_time =
     s\<lparr>process_cpu_history :=
         (process_cpu_history s)
           (p \<mapsto> (case process_cpu_history s p of None \<Rightarrow> [] | Some history \<Rightarrow> history)
                   @ [(current_time, cpu_pct)])\<rparr>"

text \<open>\<open>_calculate_average_cpu\<close> (lines 139-155).\<close>

definition calculate_average_cpu :: "CPUMonitorCore \<Rightarrow> pid \<Rightarrow> real \<Rightarrow> real" where
  "calculate_average_cpu s p current_time =
     (case process_cpu_history s p of
        None \<Rightarrow> 0
      | Some history \<Rightarrow>
          (let cutoff_time = current_time - history_window;
               recent_history = filter (\<lambda>(t, c). t \<ge> cutoff_time) history
           in if recent_history = [] then 0
              else sum_list (map snd recent_history) / real (length recent_history)))"

section \<open>System statistics and the history ring\<close>

text \<open>
  \<open>_update_system_stats\<close> (lines 298-336). Every psutil call is made before the first
  write, so an exception (\<open>Inl\<close>) leaves the engine as it was. The slice
  \<open>xs[-history_max_points:]\<close> keeps the last \<open>history_max_points\<close> elements.
\<close>

definition update_system_stats ::
  "CPUMonitorCore \<Rightarrow> error + sys_reading \<Rightarrow> CPUMonitorCore" where
  "update_system_stats s reading =
     (case reading of
        Inl e \<Rightarrow> s
      | Inr r \<Rightarrow>
          (let sd = (system_data s)\<lparr>
                 sys_cpu_percent := r_cpu_percent r,
                 sys_memory_percent := r_memory_percent r,
                 sys_cpu_freq := (case r_cpu_freq r of Some f \<Rightarrow> f | None \<Rightarrow> 0),
                 sys_cpu_stats := Some (r_user r, r_system r, r_idle r),
                 sys_memory_stats :=
                   Some (r_memory_total r, r_memory_available r, r_memory_used r)\<rparr>;
               h = history_data s;
               h1 = h\<lparr>cpu := cpu h @ [r_cpu_percent r],
                      memory := memory h @ [r_memory_percent r],
                      timestamps := timestamps h @ [r_now r]\<rparr>;
               h2 = (if length (cpu h1) > history_max_points
                     then h1\<lparr>cpu := drop (length (cpu h1) - history_max_points) (cpu h1),
                             memory :=
                               drop (length (memory h1) - history_max_points) (memory h1),
                             timestamps :=
                               drop (length (timestamps h1) - history_max_points)
                                 (timestamps h1)\<rparr>
                     else h1)
           in s\<lparr>system_data := sd, history_data := h2\<rparr>))"

text \<open>\<open>get_history_data\<close> (lines 443-450): copies of the three lists.\<close>

definition get_history_data :: "CPUMonitorCore \<Rightarrow> history_data" where
  "get_history_data s =
     \<lparr>cpu = cpu (history_data s),
      memory = memory (history_data s),
      timestamps = timestamps (history_data s)\<rparr>"

section \<open>Process info cache and the per-process read\<close>

text \<open>The status test of lines 172 and 204, on the instantaneous CPU percent.\<close>

definition status_of :: "CPUMonitorCore \<Rightarrow> real \<Rightarrow> string" where
  "status_of s cpu_pct = (if cpu_pct > threshold s then ''HIGH'' else ''Normal'')"

text \<open>Python's \<open>' '.join(cmdline)\<close>.\<close>

fun join_space :: "string list \<Rightarrow> string" where
  "join_space [] = []"
| "join_space [x] = x"
| "join_space (x # y # ys) = x @ '' '' @ join_space (y # ys)"

text \<open>
  An assignment to fields of the object at address \<open>r\<close>, as \<open>obj.field = value\<close>:
  every holder of a reference to the object sees the new value.
\<close>

definition update_object ::
  "CPUMonitorCore \<Rightarrow> ref \<Rightarrow> (ProcessInfo \<Rightarrow> ProcessInfo) \<Rightarrow> CPUMonitorCore" where
  "update_object s r f = s\<lparr>heap := (heap s)(r := f (heap s r))\<rparr>"

text \<open>The constructor call \<open>ProcessInfo(...)\<close>: a new object at a fresh address.\<close>

definition new_object :: "CPUMonitorCore \<Rightarrow> ProcessInfo \<Rightarrow> ref \<times> CPUMonitorCore" where
  "new_object s i =
     (next_ref s, s\<lparr>heap := (heap s)(next_ref s := i), next_ref := Suc (next_ref s)\<rparr>)"

text \<open>
  The cheap path of \<open>_get_process_info\<close> (lines 167-179), entered for a cached entry
  younger than \<open>cache_ttl\<close>. The fields of the entry's \<open>ProcessInfo\<close> object are
  assigned in place, one after the other, in the order of the source; the object is
  the one a full read built and published, so the elements of the published list
  change with it. When \<open>cpu_percent()\<close> or \<open>memory_percent()\<close> raises, the result is
  \<open>None\<close>, the assignments made before stay, and the caller deletes the entry and
  goes on to the full read. \<open>t_sample\<close> and \<open>t_query\<close> are the clock readings of
  \<open>_update_process_cpu_history\<close> and \<open>_calculate_average_cpu\<close>.
\<close>

definition cheap_refresh ::
  "CPUMonitorCore \<Rightarrow> process \<Rightarrow> cache_entry \<Rightarrow> real \<Rightarrow> real
     \<Rightarrow> ref option \<times> CPUMonitorCore" where
  "cheap_refresh s proc cache_entry t_sample t_query =
     (case proc_cpu_percent proc of
        Inl e \<Rightarrow> (None, s)
      | Inr cpu_pct \<Rightarrow>
          (let s1 = update_object s (info cache_entry) (\<lambda>i. i\<lparr>cpu_percent := cpu_pct\<rparr>)
           in case proc_memory_percent proc of
                Inl e \<Rightarrow> (None, s1)
              | Inr mem_pct \<Rightarrow>
                  (let s2 = update_object s1 (info cache_entry)
                              (\<lambda>i. i\<lparr>memory_percent := mem_pct\<rparr>);
                       s3 = update_object s2 (info cache_entry)
                              (\<lambda>i. i\<lparr>status := status_of s2 cpu_pct\<rparr>);
                       s4 = update_process_cpu_history s3 (proc_pid proc) cpu_pct t_sample;
                       avg = calculate_average_cpu s4 (proc_pid proc) t_query;
                       s5 = update_object s4 (info cache_entry)
                              (\<lambda>i. i\<lparr>avg_cpu_percent := avg\<rparr>)
                   in (Some (info cache_entry), s5))))"

text \<open>
  The handlers of lines 247-278 for an exception raised by \<open>name()\<close>,
  \<open>cpu_percent()\<close> or \<open>memory_percent()\<close> in the full read. \<open>hasattr(process,
  'name')\<close> holds for every \<open>psutil.Process\<close>, so the limited record calls
  \<open>name()\<close> again, and returns nothing when that call raises.
\<close>

definition read_failed ::
  "CPUMonitorCore \<Rightarrow> process \<Rightarrow> real \<Rightarrow> error \<Rightarrow> ref option \<times> CPUMonitorCore" where
  "read_failed s proc current_time e =
     (case e of
        NoSuchProcess \<Rightarrow>
          (None, s\<lparr>process_cache := (process_cache s)(proc_pid proc := None)\<rparr>)
      | AccessDenied \<Rightarrow>
          (case proc_name proc of
             Inl e' \<Rightarrow> (None, s)
           | Inr nm \<Rightarrow>
               (case new_object s
                       \<lparr>name = nm, pid = proc_pid proc, cpu_percent = 0,
                        memory_percent = 0, username = ''N/A'', status = ''N/A'',
                        command = ''Access Denied'', create_time = 0, threads = 0,
                        avg_cpu_percent = 0\<rparr> of
                  (r, s1) \<Rightarrow>
                    (Some r,
                     s1\<lparr>process_cache :=
                          (process_cache s1)
                            (proc_pid proc \<mapsto> \<lparr>info = r, timestamp = current_time\<rparr>)\<rparr>)))
      | OtherError \<Rightarrow> (None, s))"

text \<open>The full read of \<open>_get_process_info\<close> (lines 181-281), which builds a new object.\<close>

definition full_read ::
  "CPUMonitorCore \<Rightarrow> process \<Rightarrow> real \<Rightarrow> real \<Rightarrow> real
     \<Rightarrow> ref option \<times> CPUMonitorCore" where
  "full_read s proc current_time t_sample t_query =
     (case proc_name proc of
        Inl e \<Rightarrow> read_failed s proc current_time e
      | Inr nm \<Rightarrow>
     (case proc_cpu_percent proc of
        Inl e \<Rightarrow> read_failed s proc current_time e
      | Inr cpu_pct \<Rightarrow>
     (case proc_memory_percent proc of
        Inl e \<Rightarrow> read_failed s proc current_time e
      | Inr mem_pct \<Rightarrow>
          (let s1 = update_process_cpu_history s (proc_pid proc) cpu_pct t_sample;
               avg = calculate_average_cpu s1 (proc_pid proc) t_query;
               usr = (case proc_username proc of Inr u \<Rightarrow> u | Inl e \<Rightarrow> ''N/A'');
               st = status_of s cpu_pct;
               cmd = (case proc_cmdline proc of
                        Inl e \<Rightarrow> nm
                      | Inr cmdline \<Rightarrow>
                          if cmdline \<noteq> [] then join_space cmdline
                          else (case proc_exe proc of Inr x \<Rightarrow> x | Inl e \<Rightarrow> nm));
               ct = (case proc_create_time proc of Inr c \<Rightarrow> c | Inl e \<Rightarrow> 0);
               th = (case proc_num_threads proc of Inr n \<Rightarrow> n | Inl e \<Rightarrow> 0)
           in case new_object s1
                     \<lparr>name = nm, pid = proc_pid proc, cpu_percent = cpu_pct,
                      memory_percent = mem_pct, username = usr, status = st,
                      command = cmd, create_time = ct, threads = th,
                      avg_cpu_percent = avg\<rparr> of
                (r, s2) \<Rightarrow>
                  (Some r,
                   s2\<lparr>process_cache :=
                        (process_cache s2)
                          (proc_pid proc \<mapsto> \<lparr>info = r, timestamp = current_time\<rparr>)\<rparr>)))))"

text \<open>
  \<open>_get_process_info\<close> (lines 157-281): \<open>current_time\<close> is the clock reading of
  line 162. The result is a reference to the object the caller gets.
\<close>

definition get_process_info ::
  "CPUMonitorCore \<Rightarrow> process \<Rightarrow> real \<Rightarrow> real \<Rightarrow> real
     \<Rightarrow> ref option \<times> CPUMonitorCore" where
  "get_process_info s proc current_time t_sample t_query =
     (case process_cache s (proc_pid proc) of
        None \<Rightarrow> full_read s proc current_time t_sample t_query
      | Some cache_entry \<Rightarrow>
          if current_time - timestamp cache_entry < cache_ttl
          then (case cheap_refresh s proc cache_entry t_sample t_query of
                  (Some r, s') \<Rightarrow> (Some r, s')
                | (None, s') \<Rightarrow>
                    full_read (s'\<lparr>process_cache := (process_cache s')(proc_pid proc := None)\<rparr>)
                      proc current_time t_sample t_query)
          else full_read s proc current_time t_sample t_query)"

text \<open>\<open>_cleanup_process_cache\<close> (lines 283-296).\<close>

definition cleanup_process_cache :: "CPUMonitorCore \<Rightarrow> real \<Rightarrow> CPUMonitorCore" where
  "cleanup_process_cache s current_time =
     (if current_time - last_cache_cleanup s > 30
      then s\<lparr>process_cache :=
               (\<lambda>p. case process_cache s p of
                       None \<Rightarrow> None
                     | Some cache_entry \<Rightarrow>
                         if current_time - timestamp cache_entry > cache_ttl then None
                         else Some cache_entry),
             last_cache_cleanup := current_time\<rparr>
      else s)"

section \<open>Monitor loop\<close>

text \<open>
  What one iteration of the loop in \<open>_monitor_loop\<close> gets from the operating system
  and the clock: the reading of line 343, the system statistics, the readings of the
  two cleanups, the list of \<open>psutil.process_iter\<close> and the list of \<open>psutil.pids\<close>
  with the outcome of \<open>psutil.Process(pid)\<close> for each. Every process comes with the
  three clock readings taken while it is handled.
\<close>

record tick_env =
  env_time :: real
  env_stats :: "error + sys_reading"
  env_cache_time :: real
  env_history_time :: real
  env_process_iter :: "error + (process \<times> real \<times> real \<times> real) list"
  env_pids :: "error + ((error + process) \<times> real \<times> real \<times> real) list"

text \<open>The loop of lines 373-376.\<close>

fun collect_infos ::
  "CPUMonitorCore \<Rightarrow> (process \<times> real \<times> real \<times> real) list
     \<Rightarrow> ref list \<times> CPUMonitorCore" where
  "collect_infos s [] = ([], s)"
| "collect_infos s ((proc, t0, t1, t2) # ps) =
     (case get_process_info s proc t0 t1 t2 of
        (r, s1) \<Rightarrow>
          (case collect_infos s1 ps of
             (processes, s2) \<Rightarrow>
               ((case r of Some i \<Rightarrow> [i] | None \<Rightarrow> []) @ processes, s2)))"

text \<open>The loop of lines 384-391; a PID whose \<open>psutil.Process(pid)\<close> raises is skipped.\<close>

fun collect_alternative ::
  "CPUMonitorCore \<Rightarrow> ((error + process) \<times> real \<times> real \<times> real) list
     \<Rightarrow> ref list \<times> CPUMonitorCore" where
  "collect_alternative s [] = ([], s)"
| "collect_alternative s ((Inl e, t0, t1, t2) # ps) = collect_alternative s ps"
| "collect_alternative s ((Inr proc, t0, t1, t2) # ps) =
     (case get_process_info s proc t0 t1 t2 of
        (r, s1) \<Rightarrow>
          (case collect_alternative s1 ps of
             (processes, s2) \<Rightarrow>
               ((case r of Some i \<Rightarrow> [i] | None \<Rightarrow> []) @ processes, s2)))"

text \<open>
  The key of the pre-sort of line 369. Python's \<open>sort(key=k, reverse=True)\<close> is
  stable, as is \<open>sort_key\<close> on the negated key.
\<close>

definition presort_key :: "process \<times> real \<times> real \<times> real \<Rightarrow> real" where
  "presort_key x = (case info_cpu_percent (fst x) of Some c \<Rightarrow> c | None \<Rightarrow> 0)"

text \<open>
  The body of the full update (lines 360-408), after the event is cleared. The sort of
  line 396 reads the key of every object as it is when the sort runs.
\<close>

definition full_update :: "CPUMonitorCore \<Rightarrow> tick_env \<Rightarrow> CPUMonitorCore" where
  "full_update s env =
     (case (case env_process_iter env of
              Inl e \<Rightarrow> ([], s)
            | Inr process_iter \<Rightarrow>
                collect_infos s (take 100 (sort_key (\<lambda>x. - presort_key x) process_iter))) of
        (processes, s1) \<Rightarrow>
     (case (if processes = []
            then (case env_pids env of
                    Inl e \<Rightarrow> ([], s1)
                  | Inr pids \<Rightarrow> collect_alternative s1 (take 100 pids))
            else (processes, s1)) of
        (processes', s2) \<Rightarrow>
          s2\<lparr>process_data := sort_key (\<lambda>r. - avg_cpu_percent (heap s2 r)) processes',
             update_queue := update_queue s2 @ [True]\<rparr>))"

text \<open>
  One iteration of the loop of \<open>_monitor_loop\<close> (lines 342-416), on the engine and
  the local variable \<open>last_full_update\<close>.
\<close>

definition monitor_iteration ::
  "tick_env \<Rightarrow> CPUMonitorCore \<times> real \<Rightarrow> CPUMonitorCore \<times> real" where
  "monitor_iteration env st =
     (case st of
        (s, last_full_update) \<Rightarrow>
          (let current_time = env_time env;
               s1 = update_system_stats s (env_stats env);
               s2 = cleanup_process_cache s1 (env_cache_time env);
               s3 = cleanup_process_history s2 (env_history_time env);
               full_update_needed =
                 (update_event s3 \<or> current_time - last_full_update \<ge> 5)
           in if full_update_needed
              then (full_update (s3\<lparr>update_event := False\<rparr>) env, current_time)
              else (s3, last_full_update)))"

text \<open>
  \<open>_monitor_loop\<close>: the loop runs while \<open>running\<close> holds, one iteration for each
  environment of the list.
\<close>

fun monitor_loop :: "tick_env list \<Rightarrow> CPUMonitorCore \<times> real \<Rightarrow> CPUMonitorCore \<times> real" where
  "monitor_loop [] st = st"
| "monitor_loop (env # envs) st =
     (if running (fst st) then monitor_loop envs (monitor_iteration env st) else st)"

section \<open>Control API\<close>

datatype init_error = PermissionError | InitFailed

text \<open>
  The store is total: an address not yet in use holds this placeholder, which no
  reference leads to.
\<close>

definition no_object :: ProcessInfo where
  "no_object =
     \<lparr>name = [], pid = 0, cpu_percent = 0, memory_percent = 0, username = [],
      status = [], command = [], create_time = 0, threads = 0, avg_cpu_percent = 0\<rparr>"

text \<open>
  \<open>__init__\<close> (lines 27-67): \<open>access\<close> is the exception raised in
  \<open>_verify_system_access\<close>, if any. \<open>_warmup_system\<close> and \<open>_setup_logging\<close>
  write no attribute of the engine.
\<close>

definition init_core ::
  "real \<Rightarrow> real \<Rightarrow> int option \<Rightarrow> real \<Rightarrow> error option \<Rightarrow> init_error + CPUMonitorCore" where
  "init_core thr interval cpu_count current_time access =
     (case access of
        Some AccessDenied \<Rightarrow> Inl PermissionError
      | Some e \<Rightarrow> Inl InitFailed
      | None \<Rightarrow>
          Inr \<lparr>threshold = thr, running = True, update_interval = interval,
               update_event = False, process_data = [],
               system_data = \<lparr>sys_cpu_percent = 0, sys_memory_percent = 0,
                                sys_cpu_freq = 0, sys_cpu_count = cpu_count,
                                sys_cpu_stats = None, sys_memory_stats = None\<rparr>,
               history_data = \<lparr>cpu = [], memory = [], timestamps = []\<rparr>,
               update_queue = [], process_cpu_history = Map.empty,
               process_cache = Map.empty, last_cache_cleanup = current_time,
               heap = (\<lambda>r. no_object), next_ref = 0\<rparr>)"

text \<open>
  \<open>get_process_list\<close> (lines 428-431): \<open>list.copy()\<close> is a new list of the same
  references, not of copies of the objects.
\<close>

definition get_process_list :: "CPUMonitorCore \<Rightarrow> ref list" where
  "get_process_list s = process_data s"

text \<open>What the holder of a list of references reads in its elements, in state \<open>s\<close>.\<close>

definition view :: "CPUMonitorCore \<Rightarrow> ref list \<Rightarrow> ProcessInfo list" where
  "view s rs = map (heap s) rs"

text \<open>
  The \<open>ProcessInfo\<close> the caller of \<open>_get_process_info\<close> holds, as it reads when the
  call returns.
\<close>

definition result_info :: "ref option \<times> CPUMonitorCore \<Rightarrow> ProcessInfo option" where
  "result_info x = (case x of (None, s) \<Rightarrow> None | (Some r, s) \<Rightarrow> Some (heap s r))"

text \<open>\<open>request_update\<close> (lines 433-436).\<close>

definition request_update :: "CPUMonitorCore \<Rightarrow> CPUMonitorCore" where
  "request_update s = s\<lparr>update_event := True\<rparr>"

text \<open>\<open>get_system_stats\<close> (lines 438-441).\<close>

definition get_system_stats :: "CPUMonitorCore \<Rightarrow> system_data" where
  "get_system_stats s = system_data s"

text \<open>
  What \<open>kill_process\<close> gets from the operating system: the exception raised by
  \<open>psutil.Process(pid)\<close> or \<open>terminate()\<close>, if any; whether \<open>sys.platform\<close> is
  \<open>win32\<close>; whether the call of \<open>os.system\<close> raises.
\<close>

record kill_env =
  k_terminate :: "error option"
  k_win32 :: bool
  k_taskkill_raises :: bool

text \<open>\<open>kill_process\<close> (lines 452-485).\<close>

definition kill_process :: "CPUMonitorCore \<Rightarrow> pid \<Rightarrow> kill_env \<Rightarrow> bool \<times> CPUMonitorCore" where
  "kill_process s p k =
     (case k_terminate k of
        None \<Rightarrow> (True, s\<lparr>process_cache := (process_cache s)(p := None)\<rparr>)
      | Some NoSuchProcess \<Rightarrow> (False, s)
      | Some AccessDenied \<Rightarrow>
          if k_win32 k
          then (if k_taskkill_raises k then (False, s)
                else (True, s\<lparr>process_cache := (process_cache s)(p := None)\<rparr>))
          else (False, s)
      | Some OtherError \<Rightarrow> (False, s))"

text \<open>\<open>set_threshold\<close>, \<open>set_update_interval\<close> and \<open>shutdown\<close> (lines 487-502).\<close>

definition set_threshold :: "CPUMonitorCore \<Rightarrow> real \<Rightarrow> CPUMonitorCore" where
  "set_threshold s thr = s\<lparr>threshold := thr\<rparr>"

definition set_update_interval :: "CPUMonitorCore \<Rightarrow> real \<Rightarrow> CPUMonitorCore" where
  "set_update_interval s interval = s\<lparr>update_interval := max 0.5 interval\<rparr>"

definition shutdown :: "CPUMonitorCore \<Rightarrow> CPUMonitorCore" where
  "shutdown s = s\<lparr>running := False\<rparr>"

text \<open>
  The states of the engine that a call of the control API can find: the one
  \<open>__init__\<close> builds, and every state a loop iteration or a call of the control API
  leads to from one of them. The caller's thread runs beside the monitor thread, so a
  call can also find the engine between two steps of a loop iteration: after the
  system statistics, after either cleanup, after the event is cleared, and after each
  process the full update has read.
\<close>

inductive reachable :: "CPUMonitorCore \<Rightarrow> bool" where
  r_init: "init_core thr interval cnt t0 access = Inr s \<Longrightarrow> reachable s"
| r_iteration: "reachable s \<Longrightarrow> reachable (fst (monitor_iteration env (s, l)))"
| r_stats: "reachable s \<Longrightarrow> reachable (update_system_stats s reading)"
| r_cache_cleanup: "reachable s \<Longrightarrow> reachable (cleanup_process_cache s t)"
| r_history_cleanup: "reachable s \<Longrightarrow> reachable (cleanup_process_history s t)"
| r_clear: "reachable s \<Longrightarrow> reachable (s\<lparr>update_event := False\<rparr>)"
| r_read: "reachable s \<Longrightarrow> reachable (snd (get_process_info s proc t0 t1 t2))"
| r_request: "reachable s \<Longrightarrow> reachable (request_update s)"
| r_kill: "reachable s \<Longrightarrow> reachable (snd (kill_process s p k))"
| r_threshold: "reachable s \<Longrightarrow> reachable (set_threshold s thr)"
| r_interval: "reachable s \<Longrightarrow> reachable (set_update_interval s interval)"
| r_shutdown: "reachable s \<Longrightarrow> reachable (shutdown s)"

section \<open>Notions used in the statements\<close>

text \<open>
  The samples recorded for a PID; a PID without an entry has none (lines 135-136 and
  142-143).
\<close>

definition samples_of :: "CPUMonitorCore \<Rightarrow> pid \<Rightarrow> (real \<times> real) list" where
  "samples_of s p = (case process_cpu_history s p of None \<Rightarrow> [] | Some history \<Rightarrow> history)"

text \<open>
  The rolling average in the words of the specification, on a window with both of its
  bounds: the samples with a timestamp in \<open>[lo, hi]\<close> are kept, the result is the
  arithmetic mean of their CPU values, or 0 if none is kept.
\<close>

definition window_mean :: "real \<Rightarrow> real \<Rightarrow> (real \<times> real) list \<Rightarrow> real" where
  "window_mean lo hi samples =
     (let kept = filter (\<lambda>(t, c). lo \<le> t \<and> t \<le> hi) samples
      in if kept = [] then 0 else sum_list (map snd kept) / real (length kept))"

text \<open>Descending order of the rolling average.\<close>

definition sorted_by_avg_desc :: "ProcessInfo list \<Rightarrow> bool" where
  "sorted_by_avg_desc xs = sorted_wrt (\<lambda>a b. avg_cpu_percent a \<ge> avg_cpu_percent b) xs"

text \<open>Pushing history points one after the other, each by a run of \<open>_update_system_stats\<close>.\<close>

definition push_history :: "CPUMonitorCore \<Rightarrow> sys_reading list \<Rightarrow> CPUMonitorCore" where
  "push_history s rs = foldl (\<lambda>s' r. update_system_stats s' (Inr r)) s rs"

text \<open>The three history lists have one length, at most the capacity.\<close>

definition history_ok :: "history_data \<Rightarrow> bool" where
  "history_ok h \<longleftrightarrow>
     length (cpu h) = length (memory h) \<and> length (memory h) = length (timestamps h) \<and>
     length (cpu h) \<le> history_max_points"

text \<open>
  Two engine states that differ at most in the cache, the per-process samples and the
  store of objects.
\<close>

definition same_control :: "CPUMonitorCore \<Rightarrow> CPUMonitorCore \<Rightarrow> bool" where
  "same_control s s' \<longleftrightarrow>
     threshold s' = threshold s \<and> running s' = running s \<and>
     update_interval s' = update_interval s \<and> update_event s' = update_event s \<and>
     process_data s' = process_data s \<and> system_data s' = system_data s \<and>
     history_data s' = history_data s \<and> update_queue s' = update_queue s \<and>
     last_cache_cleanup s' = last_cache_cleanup s"

text \<open>
  Every cache entry refers to an object in use and is filed under the PID of that
  object.
\<close>

definition cache_keyed :: "CPUMonitorCore \<Rightarrow> bool" where
  "cache_keyed s \<longleftrightarrow>
     (\<forall>p e. process_cache s p = Some e \<longrightarrow>
        info e < next_ref s \<and> pid (heap s (info e)) = p)"

text \<open>From \<open>s\<close> to \<open>s'\<close> no object in use is lost and none changes its PID.\<close>

definition pids_kept :: "CPUMonitorCore \<Rightarrow> CPUMonitorCore \<Rightarrow> bool" where
  "pids_kept s s' \<longleftrightarrow>
     next_ref s \<le> next_ref s' \<and> (\<forall>r < next_ref s. pid (heap s' r) = pid (heap s r))"

text \<open>
  What a per-process read keeps: the cache stays keyed, no object in use changes its
  PID, and the object returned is in use and has the PID of the process.
\<close>

definition read_kept ::
  "CPUMonitorCore \<Rightarrow> process \<Rightarrow> ref option \<times> CPUMonitorCore \<Rightarrow> bool" where
  "read_kept s proc x \<longleftrightarrow>
     cache_keyed (snd x) \<and> pids_kept s (snd x) \<and>
     (\<forall>r. fst x = Some r \<longrightarrow> r < next_ref (snd x) \<and> pid (heap (snd x) r) = proc_pid proc)"

section \<open>Example inputs\<close>

text \<open>
  The engine as \<open>CPUMonitorCore(threshold=70, update_interval=2.0)\<close> builds it on a
  machine with four logical CPUs, at clock reading 0.
\<close>

definition example_core :: CPUMonitorCore where
  "example_core =
     \<lparr>threshold = 70, running = True, update_interval = 2,
      update_event = False, process_data = [],
      system_data = \<lparr>sys_cpu_percent = 0, sys_memory_percent = 0,
                       sys_cpu_freq = 0, sys_cpu_count = Some 4,
                       sys_cpu_stats = None, sys_memory_stats = None\<rparr>,
      history_data = \<lparr>cpu = [], memory = [], timestamps = []\<rparr>,
      update_queue = [], process_cpu_history = Map.empty,
      process_cache = Map.empty, last_cache_cleanup = 0,
      heap = (\<lambda>r. no_object), next_ref = 0\<rparr>"

text \<open>A process that answers every call, with the given name, CPU and memory percent.\<close>

definition readable_process :: "pid \<Rightarrow> string \<Rightarrow> real \<Rightarrow> real \<Rightarrow> process" where
  "readable_process p nm c m =
     \<lparr>proc_pid = p, info_cpu_percent = Some c, proc_name = Inr nm,
      proc_cpu_percent = Inr c, proc_memory_percent = Inr m,
      proc_username = Inr ''root'', proc_cmdline = Inr [nm], proc_exe = Inr nm,
      proc_create_time = Inr 1, proc_num_threads = Inr 1\<rparr>"

text \<open>A process on which every call raises the given exception.\<close>

definition failing_process :: "pid \<Rightarrow> error \<Rightarrow> process" where
  "failing_process p e =
     \<lparr>proc_pid = p, info_cpu_percent = None, proc_name = Inl e,
      proc_cpu_percent = Inl e, proc_memory_percent = Inl e,
      proc_username = Inl e, proc_cmdline = Inl e, proc_exe = Inl e,
      proc_create_time = Inl e, proc_num_threads = Inl e\<rparr>"

text \<open>A \<open>ProcessInfo\<close> as a full read builds it, for a cache entry.\<close>

definition example_info :: "pid \<Rightarrow> string \<Rightarrow> real \<Rightarrow> ProcessInfo" where
  "example_info p nm c =
     \<lparr>name = nm, pid = p, cpu_percent = c, memory_percent = 1, username = ''root'',
      status = ''Normal'', command = nm, create_time = 1, threads = 1,
      avg_cpu_percent = c\<rparr>"

text \<open>A system reading with the given CPU percent, memory percent and timestamp.\<close>

definition example_reading :: "real \<Rightarrow> real \<Rightarrow> real \<Rightarrow> sys_reading" where
  "example_reading c m t =
     \<lparr>r_cpu_percent = c, r_memory_percent = m, r_memory_total = 16,
      r_memory_available = 8, r_memory_used = 8, r_cpu_freq = None,
      r_user = 1, r_system = 1, r_idle = 98, r_now = t\<rparr>"

text \<open>150 system readings, the n-th with CPU percent and timestamp n.\<close>

definition example_readings :: "sys_reading list" where
  "example_readings = map (\<lambda>n. example_reading (real n) 50 (real n)) [0..<150]"

text \<open>
  The environment of one loop iteration at clock reading 10: two processes, listed
  with the one of lower CPU percent first.
\<close>

definition example_env :: tick_env where
  "example_env =
     \<lparr>env_time = 10, env_stats = Inr (example_reading 12 34 10),
      env_cache_time = 10, env_history_time = 10,
      env_process_iter =
        Inr [(readable_process 1 ''a'' 10 1, 10, 10, 10),
             (readable_process 2 ''b'' 50 1, 10, 10, 10)],
      env_pids = Inr []\<rparr>"

text \<open>Recording samples \<open>(timestamp, cpu)\<close> for a PID, one call of
  \<open>_update_process_cpu_history\<close> each.\<close>

definition record_samples ::
  "CPUMonitorCore \<Rightarrow> pid \<Rightarrow> (real \<times> real) list \<Rightarrow> CPUMonitorCore" where
  "record_samples s p samples =
     foldl (\<lambda>s' (t, c). update_process_cpu_history s' p c t) s samples"

text \<open>
  The example engine with a cache entry for PID 5, written at clock reading 0 under the
  name \<open>old\<close>; its object is at address 0.
\<close>

definition cached_core :: CPUMonitorCore where
  "cached_core =
     example_core\<lparr>process_cache := [5 \<mapsto> \<lparr>info = 0, timestamp = 0\<rparr>],
       heap := (\<lambda>r. no_object)(0 := example_info 5 ''old'' 10), next_ref := 1\<rparr>"

text \<open>The PIDs the operating system lists in one loop iteration.\<close>

definition enumerated_pids :: "tick_env \<Rightarrow> pid list" where
  "enumerated_pids env =
     (case env_process_iter env of
        Inl e \<Rightarrow> []
      | Inr ps \<Rightarrow> map (\<lambda>x. proc_pid (fst x)) ps) @
     (case env_pids env of
        Inl e \<Rightarrow> []
      | Inr qs \<Rightarrow>
          concat (map (\<lambda>x. case fst x of Inl e \<Rightarrow> [] | Inr proc \<Rightarrow> [proc_pid proc]) qs))"

text \<open>
  The environment of a later loop iteration, at clock reading 20: the process with
  PID 1 is gone.
\<close>

definition example_env_later :: tick_env where
  "example_env_later =
     \<lparr>env_time = 20, env_stats = Inr (example_reading 12 34 20),
      env_cache_time = 20, env_history_time = 20,
      env_process_iter = Inr [(readable_process 2 ''b'' 50 1, 20, 20, 20)],
      env_pids = Inr []\<rparr>"

text \<open>Outcomes of the termination request, on a platform other than Windows.\<close>

definition kill_outcome :: "error option \<Rightarrow> kill_env" where
  "kill_outcome r = \<lparr>k_terminate = r, k_win32 = False, k_taskkill_raises = False\<rparr>"

text \<open>
  The engine after the loop iteration of \<open>example_env\<close>, which publishes the objects
  of PID 2 (average 50) and PID 1 (average 10) in this order.
\<close>

definition published_core :: CPUMonitorCore where
  "published_core = fst (monitor_iteration example_env (example_core, 0))"

text \<open>
  The engine in the middle of the next full update, requested by \<open>request_update\<close>
  and run at clock reading 12: the statistics and the cleanups are done, the event is
  cleared, and the first process of the pre-sorted list, PID 1 now at 100 percent, has
  been read. Its cache entry is 2 seconds old.
\<close>

definition mid_update_core :: CPUMonitorCore where
  "mid_update_core =
     snd (get_process_info
       ((cleanup_process_history
           (cleanup_process_cache
              (update_system_stats (request_update published_core)
                 (Inr (example_reading 12 34 12))) 12) 12)\<lparr>update_event := False\<rparr>)
       (readable_process 1 ''a'' 100 1) 12 12 12)"


section \<open>What a per-process read leaves unchanged\<close>

lemma same_control_refl: "same_control s s"
  by (simp add: same_control_def)

lemma same_control_trans: "same_control s s1 \<Longrightarrow> same_control s1 s2 \<Longrightarrow> same_control s s2"
  by (simp add: same_control_def)

lemma same_control_history: "same_control s (update_process_cpu_history s p c t)"
  by (simp add: same_control_def update_process_cpu_history_def)

lemma same_control_cache: "same_control s s1 \<Longrightarrow> same_control s (s1\<lparr>process_cache := c\<rparr>)"
  by (simp add: same_control_def)

lemma same_control_cheap: "same_control s (snd (cheap_refresh s proc e t1 t2))"
  by (simp add: cheap_refresh_def Let_def same_control_def update_object_def
      update_process_cpu_history_def split: sum.split)

lemma same_control_failed: "same_control s (snd (read_failed s proc t e))"
  by (simp add: read_failed_def same_control_def new_object_def split: error.split sum.split)

lemma same_control_full: "same_control s (snd (full_read s proc t0 t1 t2))"
proof (cases "proc_name proc")
  case (Inl e)
  then show ?thesis by (simp add: full_read_def same_control_failed)
next
  case name: (Inr nm)
  show ?thesis
  proof (cases "proc_cpu_percent proc")
    case (Inl e)
    with name show ?thesis by (simp add: full_read_def same_control_failed)
  next
    case c: (Inr c)
    show ?thesis
    proof (cases "proc_memory_percent proc")
      case (Inl e)
      with name c show ?thesis by (simp add: full_read_def same_control_failed)
    next
      case (Inr m)
      with name c show ?thesis
        by (simp add: full_read_def Let_def new_object_def same_control_def
            update_process_cpu_history_def)
    qed
  qed
qed

lemma same_control_get: "same_control s (snd (get_process_info s proc t0 t1 t2))"
proof (cases "process_cache s (proc_pid proc)")
  case None
  then show ?thesis by (simp add: get_process_info_def same_control_full)
next
  case (Some e)
  show ?thesis
  proof (cases "t0 - timestamp e < cache_ttl")
    case False
    with Some show ?thesis by (simp add: get_process_info_def same_control_full)
  next
    case True
    obtain r s' where c: "cheap_refresh s proc e t1 t2 = (r, s')"
      by (cases "cheap_refresh s proc e t1 t2")
    have s': "same_control s s'"
      using same_control_cheap [of s proc e t1 t2] c by simp
    show ?thesis
    proof (cases r)
      case None
      have "same_control s (s'\<lparr>process_cache := (process_cache s')(proc_pid proc := None)\<rparr>)"
        using s' by (rule same_control_cache)
      then have "same_control s
          (snd (full_read (s'\<lparr>process_cache := (process_cache s')(proc_pid proc := None)\<rparr>)
             proc t0 t1 t2))"
        using same_control_full by (rule same_control_trans)
      with Some True c None show ?thesis by (simp add: get_process_info_def)
    next
      case (Some x)
      with \<open>process_cache s (proc_pid proc) = Some e\<close> True c s' show ?thesis
        by (simp add: get_process_info_def)
    qed
  qed
qed

lemma same_control_collect: "same_control s (snd (collect_infos s ps))"
proof (induction s ps rule: collect_infos.induct)
  case (1 s)
  show ?case by (simp add: same_control_refl)
next
  case (2 s proc t0 t1 t2 ps)
  obtain r s1 where g: "get_process_info s proc t0 t1 t2 = (r, s1)"
    by (cases "get_process_info s proc t0 t1 t2")
  obtain qs s2 where c: "collect_infos s1 ps = (qs, s2)" by (cases "collect_infos s1 ps")
  have "same_control s s1" using same_control_get [of s proc t0 t1 t2] g by simp
  moreover have "same_control s1 s2" using 2 [OF g [symmetric]] c g by simp
  ultimately show ?case using g c by (simp add: same_control_trans)
qed

lemma same_control_alternative: "same_control s (snd (collect_alternative s ps))"
proof (induction s ps rule: collect_alternative.induct)
  case (1 s)
  show ?case by (simp add: same_control_refl)
next
  case (2 s e t0 t1 t2 ps)
  then show ?case by simp
next
  case (3 s proc t0 t1 t2 ps)
  obtain r s1 where g: "get_process_info s proc t0 t1 t2 = (r, s1)"
    by (cases "get_process_info s proc t0 t1 t2")
  obtain qs s2 where c: "collect_alternative s1 ps = (qs, s2)"
    by (cases "collect_alternative s1 ps")
  have "same_control s s1" using same_control_get [of s proc t0 t1 t2] g by simp
  moreover have "same_control s1 s2" using 3 [OF g [symmetric]] c g by simp
  ultimately show ?case using g c by (simp add: same_control_trans)
qed


section \<open>The full update and the history ring\<close>

text \<open>The full update: what it publishes, and the state it publishes it in.\<close>

lemma full_update_shape:
  "\<exists>processes s2. same_control s s2 \<and>
     full_update s env =
       s2\<lparr>process_data := sort_key (\<lambda>r. - avg_cpu_percent (heap s2 r)) processes,
          update_queue := update_queue s2 @ [True]\<rparr>"
proof -
  define first where "first =
    (case env_process_iter env of
       Inl e \<Rightarrow> ([], s)
     | Inr process_iter \<Rightarrow>
         collect_infos s (take 100 (sort_key (\<lambda>x. - presort_key x) process_iter)))"
  obtain processes s1 where f: "first = (processes, s1)" by (cases first)
  have c1: "same_control s s1"
  proof (cases "env_process_iter env")
    case (Inl e)
    with f show ?thesis by (simp add: first_def same_control_refl)
  next
    case (Inr process_iter)
    with f same_control_collect [of s "take 100 (sort_key (\<lambda>x. - presort_key x) process_iter)"]
    show ?thesis by (simp add: first_def)
  qed
  define second where "second =
    (if processes = []
     then (case env_pids env of
             Inl e \<Rightarrow> ([], s1)
           | Inr pids \<Rightarrow> collect_alternative s1 (take 100 pids))
     else (processes, s1))"
  obtain processes' s2 where g: "second = (processes', s2)" by (cases second)
  have c2: "same_control s1 s2"
  proof (cases "processes = []")
    case False
    with g show ?thesis by (simp add: second_def same_control_refl)
  next
    case True
    show ?thesis
    proof (cases "env_pids env")
      case (Inl e)
      with True g show ?thesis by (simp add: second_def same_control_refl)
    next
      case (Inr pids)
      with True g same_control_alternative [of s1 "take 100 pids"]
      show ?thesis by (simp add: second_def)
    qed
  qed
  have "full_update s env =
       s2\<lparr>process_data := sort_key (\<lambda>r. - avg_cpu_percent (heap s2 r)) processes',
          update_queue := update_queue s2 @ [True]\<rparr>"
    using f g by (simp add: full_update_def first_def [symmetric] second_def [symmetric])
  with same_control_trans [OF c1 c2] show ?thesis by blast
qed

lemma history_data_full_update: "history_data (full_update s env) = history_data s"
  using full_update_shape [of s env] by (auto simp: same_control_def)

lemma history_data_cleanup_cache: "history_data (cleanup_process_cache s t) = history_data s"
  by (simp add: cleanup_process_cache_def)

lemma history_data_cleanup_history: "history_data (cleanup_process_history s t) = history_data s"
  by (simp add: cleanup_process_history_def)

lemma history_data_iteration:
  "history_data (fst (monitor_iteration env (s, l))) =
     history_data (update_system_stats s (env_stats env))"
  by (simp add: monitor_iteration_def Let_def history_data_full_update
      history_data_cleanup_cache history_data_cleanup_history)

lemma history_ok_update:
  "history_ok (history_data s) \<Longrightarrow> history_ok (history_data (update_system_stats s reading))"
  by (auto simp: history_ok_def update_system_stats_def Let_def history_max_points_def
      split: sum.splits)

lemma history_ok_kill: "history_data (snd (kill_process s p k)) = history_data s"
  by (simp add: kill_process_def split: option.split error.split)

lemma history_data_get: "history_data (snd (get_process_info s proc t0 t1 t2)) = history_data s"
  using same_control_get [of s proc t0 t1 t2] by (simp add: same_control_def)

lemma history_ok_reachable: "reachable s \<Longrightarrow> history_ok (history_data s)"
proof (induction rule: reachable.induct)
  case (r_init thr interval cnt t0 access s)
  then show ?case
    by (auto simp: init_core_def history_ok_def split: option.splits error.splits)
next
  case (r_iteration s env l)
  then show ?case by (simp add: history_data_iteration history_ok_update)
next
  case (r_stats s reading)
  then show ?case by (simp add: history_ok_update)
next
  case (r_read s proc t0 t1 t2)
  then show ?case by (simp add: history_data_get)
next
  case (r_kill s p k)
  then show ?case by (simp add: history_ok_kill)
qed (simp_all add: request_update_def set_threshold_def set_update_interval_def shutdown_def
    history_data_cleanup_cache history_data_cleanup_history)

lemma push_history_snoc:
  "push_history s (rs @ [r]) = update_system_stats (push_history s rs) (Inr r)"
  by (simp add: push_history_def)

lemma history_ok_push: "history_ok (history_data s) \<Longrightarrow> history_ok (history_data (push_history s rs))"
  by (induction rs rule: rev_induct) (simp_all add: push_history_snoc history_ok_update, simp add: push_history_def)

lemma drop_ring_step:
  "drop (length (drop (length xs - n) xs @ [x]) - n) (drop (length xs - n) xs @ [x]) =
     drop (length (xs @ [x]) - n) (xs @ [x])"
  by (cases "length xs \<le> n") (auto simp: Suc_diff_le)

lemma update_system_stats_lists:
  assumes "history_ok (history_data s)"
  shows "cpu (history_data (update_system_stats s (Inr r))) =
           drop (length (cpu (history_data s) @ [r_cpu_percent r]) - history_max_points)
             (cpu (history_data s) @ [r_cpu_percent r])"
    and "memory (history_data (update_system_stats s (Inr r))) =
           drop (length (memory (history_data s) @ [r_memory_percent r]) - history_max_points)
             (memory (history_data s) @ [r_memory_percent r])"
    and "timestamps (history_data (update_system_stats s (Inr r))) =
           drop (length (timestamps (history_data s) @ [r_now r]) - history_max_points)
             (timestamps (history_data s) @ [r_now r])"
  using assms
  by (auto simp: history_ok_def update_system_stats_def Let_def)

lemma push_history_lists:
  assumes "history_ok (history_data s)"
  shows "history_data (push_history s rs) =
     \<lparr>cpu = drop (length (cpu (history_data s) @ map r_cpu_percent rs) - history_max_points)
              (cpu (history_data s) @ map r_cpu_percent rs),
      memory = drop (length (memory (history_data s) @ map r_memory_percent rs) - history_max_points)
              (memory (history_data s) @ map r_memory_percent rs),
      timestamps = drop (length (timestamps (history_data s) @ map r_now rs) - history_max_points)
              (timestamps (history_data s) @ map r_now rs)\<rparr>"
proof (induction rs rule: rev_induct)
  case Nil
  show ?case using assms by (simp add: push_history_def history_ok_def)
next
  case (snoc r rs)
  have ok: "history_ok (history_data (push_history s rs))"
    using assms by (rule history_ok_push)
  show ?case
    using update_system_stats_lists [OF ok, of r]
      drop_ring_step [of "cpu (history_data s) @ map r_cpu_percent rs" history_max_points
        "r_cpu_percent r"]
      drop_ring_step [of "memory (history_data s) @ map r_memory_percent rs" history_max_points
        "r_memory_percent r"]
      drop_ring_step [of "timestamps (history_data s) @ map r_now rs" history_max_points
        "r_now r"]
    by (simp add: push_history_snoc snoc.IH)
qed

lemma reachable_example_core: "reachable example_core"
proof -
  have "init_core 70 2 (Some 4) 0 None = Inr example_core"
    by (simp add: init_core_def example_core_def)
  then show ?thesis by (rule r_init)
qed

text \<open>
  C5: the history ring never holds more than 100 points, and eviction is first in,
  first out: pushing 150 points leaves exactly the last 100 of them, oldest first.
\<close>

theorem history_ring_capacity_fifo:
  assumes "reachable s" and "length rs = 150"
  shows "length (cpu (get_history_data s)) \<le> 100 \<and>
         length (memory (get_history_data s)) \<le> 100 \<and>
         length (timestamps (get_history_data s)) \<le> 100 \<and>
         get_history_data (push_history s rs) =
           \<lparr>cpu = map r_cpu_percent (drop 50 rs),
            memory = map r_memory_percent (drop 50 rs),
            timestamps = map r_now (drop 50 rs)\<rparr>"
proof -
  have ok: "history_ok (history_data s)"
    using assms(1) by (rule history_ok_reachable)
  then have bound: "length (cpu (history_data s)) \<le> 100"
    and eq1: "length (memory (history_data s)) = length (cpu (history_data s))"
    and eq2: "length (timestamps (history_data s)) = length (cpu (history_data s))"
    by (simp_all add: history_ok_def history_max_points_def)
  have "get_history_data (push_history s rs) = history_data (push_history s rs)"
    by (simp add: get_history_data_def)
  also have "\<dots> = \<lparr>cpu = map r_cpu_percent (drop 50 rs),
            memory = map r_memory_percent (drop 50 rs),
            timestamps = map r_now (drop 50 rs)\<rparr>"
    using assms(2) bound eq1 eq2
    by (simp add: push_history_lists [OF ok] history_max_points_def drop_map)
  finally show ?thesis
    using bound eq1 eq2 by (simp add: get_history_data_def)
qed

theorem history_ring_capacity_fifo_witness:
  "reachable example_core \<and> length example_readings = 150 \<and>
   length (cpu (get_history_data example_core)) \<le> 100 \<and>
   cpu (get_history_data (push_history example_core example_readings)) = map real [50..<150] \<and>
   timestamps (get_history_data (push_history example_core example_readings)) =
     map real [50..<150] \<and>
   length (memory (get_history_data (push_history example_core example_readings))) = 100"
proof -
  have len: "length example_readings = 150"
    by (simp add: example_readings_def)
  show ?thesis
    using history_ring_capacity_fifo [OF reachable_example_core len] len
    by (simp add: reachable_example_core example_readings_def drop_map example_reading_def
        comp_def)
qed

text \<open>
  C10: the three history lists always have one length, so a history returned by
  \<open>get_history_data\<close> has as many CPU values as memory values and timestamps.
\<close>

theorem history_lists_equal_length:
  assumes "reachable s"
  shows "length (cpu (get_history_data s)) = length (memory (get_history_data s)) \<and>
         length (memory (get_history_data s)) = length (timestamps (get_history_data s))"
  using history_ok_reachable [OF assms] by (simp add: history_ok_def get_history_data_def)

theorem history_lists_equal_length_witness:
  "reachable (fst (monitor_iteration example_env (example_core, 0))) \<and>
   length (cpu (get_history_data (fst (monitor_iteration example_env (example_core, 0))))) = 1 \<and>
   length (memory (get_history_data (fst (monitor_iteration example_env (example_core, 0))))) = 1 \<and>
   length (timestamps (get_history_data (fst (monitor_iteration example_env (example_core, 0)))))
     = 1"
proof -
  have r: "reachable (fst (monitor_iteration example_env (example_core, 0)))"
    using reachable_example_core by (rule r_iteration)
  have "length (cpu (get_history_data (fst (monitor_iteration example_env (example_core, 0)))))
          = 1"
    by (simp add: get_history_data_def history_data_iteration update_system_stats_def
        example_env_def example_core_def example_reading_def Let_def history_max_points_def)
  with history_lists_equal_length [OF r] r show ?thesis by simp
qed


section \<open>Rolling average\<close>

lemma samples_of_update:
  "samples_of (update_process_cpu_history s p c t) q =
     (if q = p then samples_of s p @ [(t, c)] else samples_of s q)"
  by (simp add: samples_of_def update_process_cpu_history_def)

lemma samples_of_record:
  "samples_of (record_samples s p xs) q =
     (if q = p then samples_of s p @ xs else samples_of s q)"
proof (induction xs rule: rev_induct)
  case Nil
  show ?case by (simp add: record_samples_def)
next
  case (snoc x xs)
  obtain t c where x: "x = (t, c)" by (cases x)
  have "record_samples s p (xs @ [x]) = update_process_cpu_history (record_samples s p xs) p c t"
    by (simp add: record_samples_def x)
  then show ?case using snoc by (cases "q = p") (simp_all add: samples_of_update x)
qed

lemma samples_of_example_core: "samples_of example_core q = []"
  by (simp add: samples_of_def example_core_def)

lemma calculate_average_cpu_samples:
  "calculate_average_cpu s p now =
     (let recent = filter (\<lambda>(t, c). t \<ge> now - history_window) (samples_of s p)
      in if recent = [] then 0 else sum_list (map snd recent) / real (length recent))"
  by (simp add: calculate_average_cpu_def samples_of_def Let_def split: option.split)

text \<open>
  C2, as stated, fails on the code. With the samples (0, 10), (60, 20), (120, 30) and
  \<open>now = 150\<close> the result is 20; a sample at \<open>t = -10\<close> lies inside the window,
  which starts at \<open>150 - 180 = -30\<close>, and changes the result; a sample stamped later
  than \<open>now\<close> is not filtered out either, while the mean over \<open>[now - 180, now]\<close>
  leaves it out.
\<close>

theorem rolling_average_counterexample:
  "calculate_average_cpu
     (record_samples example_core 5 [(0, 10), (60, 20), (120, 30)]) 5 150 = 20 \<and>
   calculate_average_cpu
     (record_samples example_core 5 [(- 10, 60), (0, 10), (60, 20), (120, 30)]) 5 150 = 30 \<and>
   calculate_average_cpu
     (record_samples example_core 5 [(0, 10), (60, 20), (120, 30), (200, 100)]) 5 150 = 40 \<and>
   window_mean (150 - 180) 150 [(0, 10), (60, 20), (120, 30), (200, 100)] = 20"
  by (simp add: calculate_average_cpu_samples samples_of_record samples_of_example_core
      window_mean_def history_window_def)

text \<open>
  C2, amended: the rolling-average query keeps the samples of the PID with a timestamp
  of at least \<open>now - 180\<close> and returns the arithmetic mean of their CPU values, 0 if
  none is kept; this is the mean over the window \<open>[now - 180, hi]\<close> for every \<open>hi\<close>
  that no sample of the PID is stamped later than, so over \<open>[now - 180, now]\<close> when
  no sample is stamped later than \<open>now\<close>. For the samples (0, 10), (60, 20), (120, 30)
  and \<open>now = 150\<close> the result is 20; a further sample at \<open>t = -40\<close> leaves it
  unchanged, one at \<open>t = -10\<close> with CPU value \<open>c0\<close> makes it \<open>(c0 + 60) / 4\<close>.
\<close>

theorem rolling_average_window:
  assumes "\<forall>(t, c) \<in> set (samples_of s p). t \<le> hi" and "samples_of s0 q = []"
  shows "calculate_average_cpu s p now = window_mean (now - 180) hi (samples_of s p) \<and>
         calculate_average_cpu (record_samples s0 q [(0, 10), (60, 20), (120, 30)]) q 150 = 20 \<and>
         calculate_average_cpu (record_samples s0 q [(- 40, c0), (0, 10), (60, 20), (120, 30)]) q 150
           = 20 \<and>
         calculate_average_cpu (record_samples s0 q [(- 10, c0), (0, 10), (60, 20), (120, 30)]) q 150
           = (c0 + 60) / 4"
proof -
  have "filter (\<lambda>(t, c). t \<ge> now - history_window) (samples_of s p) =
        filter (\<lambda>(t, c). now - 180 \<le> t \<and> t \<le> hi) (samples_of s p)"
    using assms(1) by (intro filter_cong) (auto simp: history_window_def)
  then have "calculate_average_cpu s p now = window_mean (now - 180) hi (samples_of s p)"
    by (simp add: calculate_average_cpu_samples window_mean_def)
  moreover have "calculate_average_cpu (record_samples s0 q [(0, 10), (60, 20), (120, 30)]) q 150 = 20"
    using assms(2) by (simp add: calculate_average_cpu_samples samples_of_record history_window_def)
  moreover have "calculate_average_cpu
      (record_samples s0 q [(- 40, c0), (0, 10), (60, 20), (120, 30)]) q 150 = 20"
    using assms(2) by (simp add: calculate_average_cpu_samples samples_of_record history_window_def)
  moreover have "calculate_average_cpu
      (record_samples s0 q [(- 10, c0), (0, 10), (60, 20), (120, 30)]) q 150 = (c0 + 60) / 4"
    using assms(2) by (simp add: calculate_average_cpu_samples samples_of_record history_window_def)
  ultimately show ?thesis by simp
qed

theorem rolling_average_window_witness:
  "samples_of (record_samples example_core 5 [(- 40, 70), (0, 10), (100, 50)]) 5 =
     [(- 40, 70), (0, 10), (100, 50)] \<and>
   samples_of example_core 5 = [] \<and>
   calculate_average_cpu (record_samples example_core 5 [(- 40, 70), (0, 10), (100, 50)]) 5 150 = 30 \<and>
   calculate_average_cpu (record_samples example_core 5 [(0, 10), (60, 20), (120, 30)]) 5 150 = 20 \<and>
   calculate_average_cpu (record_samples example_core 5 [(- 40, 100), (0, 10), (60, 20), (120, 30)]) 5 150
     = 20 \<and>
   calculate_average_cpu (record_samples example_core 5 [(- 10, 100), (0, 10), (60, 20), (120, 30)]) 5 150
     = 40"
proof -
  have e: "samples_of example_core 5 = []"
    by (rule samples_of_example_core)
  have h: "\<forall>(t, c) \<in> set (samples_of (record_samples example_core 5 [(- 40, 70), (0, 10), (100, 50)]) 5).
      t \<le> 150"
    by (simp add: samples_of_record e)
  show ?thesis
    using rolling_average_window [OF h e, of 150 100] e
    by (simp add: samples_of_record window_mean_def)
qed

text \<open>
  C9, as stated, fails on the code: with \<open>now = 150\<close>, a sample stamped 200 takes
  part in the average (50 with it, 10 without it).
\<close>

theorem future_sample_counterexample:
  "calculate_average_cpu (record_samples example_core 7 [(100, 10), (200, 90)]) 7 150 = 50 \<and>
   calculate_average_cpu (record_samples example_core 7 [(100, 10)]) 7 150 = 10"
  by (simp add: calculate_average_cpu_samples samples_of_record samples_of_example_core
      history_window_def)

text \<open>
  C9, amended: the rolling average of a PID is computed only from the samples with a
  timestamp of at least \<open>now - 180\<close>; no sample older than that contributes to the
  result.
\<close>

theorem rolling_average_ignores_stale:
  assumes "filter (\<lambda>(t, c). t \<ge> now - 180) (samples_of s p) =
           filter (\<lambda>(t, c). t \<ge> now - 180) (samples_of s' p')"
  shows "calculate_average_cpu s p now = calculate_average_cpu s' p' now"
  using assms by (simp add: calculate_average_cpu_samples history_window_def)

theorem rolling_average_ignores_stale_witness:
  "filter (\<lambda>(t, c). t \<ge> 150 - 180)
     (samples_of (record_samples example_core 7 [(- 100, 99), (100, 10)]) 7) =
   filter (\<lambda>(t, c). t \<ge> 150 - 180) (samples_of (record_samples example_core 7 [(100, 10)]) 7) \<and>
   calculate_average_cpu (record_samples example_core 7 [(- 100, 99), (100, 10)]) 7 150 = 10 \<and>
   calculate_average_cpu (record_samples example_core 7 [(100, 10)]) 7 150 = 10"
proof -
  have e: "samples_of example_core 7 = []"
    by (rule samples_of_example_core)
  have h: "filter (\<lambda>(t, c). t \<ge> 150 - 180)
     (samples_of (record_samples example_core 7 [(- 100, 99), (100, 10)]) 7) =
   filter (\<lambda>(t, c). t \<ge> 150 - 180) (samples_of (record_samples example_core 7 [(100, 10)]) 7)"
    by (simp add: samples_of_record e)
  have v: "calculate_average_cpu (record_samples example_core 7 [(100, 10)]) 7 150 = 10"
    by (simp add: calculate_average_cpu_samples samples_of_record e history_window_def)
  show ?thesis
    using rolling_average_ignores_stale [OF h] h v by simp
qed


section \<open>Order of the published list\<close>

lemma sorted_by_avg_desc_sort_key:
  "sorted_by_avg_desc (map h (sort_key (\<lambda>r. - avg_cpu_percent (h r)) rs))"
  using sorted_sort_key [of "\<lambda>r. - avg_cpu_percent (h r)" rs]
  by (simp add: sorted_by_avg_desc_def sorted_map sorted_wrt_map)

text \<open>At the moment a full update publishes its list, the list is in order.\<close>

lemma sorted_at_publish:
  "sorted_by_avg_desc (view (full_update s env) (get_process_list (full_update s env)))"
  using full_update_shape [of s env]
  by (auto simp: view_def get_process_list_def sorted_by_avg_desc_sort_key)

lemma process_data_update_system_stats:
  "process_data (update_system_stats s reading) = process_data s"
  by (simp add: update_system_stats_def Let_def split: sum.split)

lemma process_data_before_full_update:
  "process_data (cleanup_process_history (cleanup_process_cache
      (update_system_stats s reading) t1) t2) = process_data s"
  by (simp add: cleanup_process_history_def cleanup_process_cache_def
      process_data_update_system_stats)

lemma heap_update_system_stats: "heap (update_system_stats s reading) = heap s"
  by (simp add: update_system_stats_def Let_def split: sum.split)

lemma heap_before_full_update:
  "heap (cleanup_process_history (cleanup_process_cache
      (update_system_stats s reading) t1) t2) = heap s"
  by (simp add: cleanup_process_history_def cleanup_process_cache_def
      heap_update_system_stats)

lemma process_data_kill: "process_data (snd (kill_process s p k)) = process_data s"
  by (simp add: kill_process_def split: option.split error.split)

lemma heap_kill: "heap (snd (kill_process s p k)) = heap s"
  by (simp add: kill_process_def split: option.split error.split)

text \<open>The state after the loop iteration of \<open>example_env\<close>.\<close>

lemma published_core_state:
  "process_data published_core = [0, Suc 0]"
  "heap published_core 0 =
     \<lparr>name = ''b'', pid = 2, cpu_percent = 50, memory_percent = 1, username = ''root'',
      status = ''Normal'', command = ''b'', create_time = 1, threads = 1,
      avg_cpu_percent = 50\<rparr>"
  "heap published_core (Suc 0) =
     \<lparr>name = ''a'', pid = 1, cpu_percent = 10, memory_percent = 1, username = ''root'',
      status = ''Normal'', command = ''a'', create_time = 1, threads = 1,
      avg_cpu_percent = 10\<rparr>"
  "process_cache published_core 1 = Some \<lparr>info = Suc 0, timestamp = 10\<rparr>"
  "process_cpu_history published_core 1 = Some [(10, 10)]"
  "last_cache_cleanup published_core = 0"
  "threshold published_core = 70"
  by (simp_all add: published_core_def monitor_iteration_def example_env_def example_core_def
      update_system_stats_def example_reading_def cleanup_process_cache_def
      cleanup_process_history_def full_update_def presort_key_def readable_process_def
      get_process_info_def full_read_def new_object_def update_process_cpu_history_def
      calculate_average_cpu_def status_of_def history_window_def history_max_points_def
      no_object_def Let_def)

lemma example_iteration_list:
  "map (\<lambda>i. (pid i, avg_cpu_percent i)) (view published_core (get_process_list published_core))
     = [(2, 50), (1, 10)]"
  by (simp add: view_def get_process_list_def published_core_state)

lemma reachable_published_core: "reachable published_core"
  unfolding published_core_def using reachable_example_core by (rule r_iteration)

text \<open>The state in the middle of the next full update.\<close>

lemma mid_update_core_state:
  "process_data mid_update_core = [0, Suc 0]"
  "heap mid_update_core 0 = heap published_core 0"
  "heap mid_update_core (Suc 0) =
     \<lparr>name = ''a'', pid = 1, cpu_percent = 100, memory_percent = 1, username = ''root'',
      status = ''HIGH'', command = ''a'', create_time = 1, threads = 1,
      avg_cpu_percent = 55\<rparr>"
  by (simp_all add: mid_update_core_def get_process_info_def cheap_refresh_def
      update_object_def request_update_def update_system_stats_def example_reading_def
      cleanup_process_cache_def cleanup_process_history_def readable_process_def
      update_process_cpu_history_def calculate_average_cpu_def status_of_def
      history_window_def history_max_points_def cache_ttl_def Let_def published_core_state)

lemma reachable_mid_update_core: "reachable mid_update_core"
proof -
  have "reachable (request_update published_core)"
    using reachable_published_core by (rule r_request)
  then have "reachable (update_system_stats (request_update published_core)
      (Inr (example_reading 12 34 12)))"
    by (rule r_stats)
  then have "reachable (cleanup_process_cache (update_system_stats
      (request_update published_core) (Inr (example_reading 12 34 12))) 12)"
    by (rule r_cache_cleanup)
  then have "reachable (cleanup_process_history (cleanup_process_cache (update_system_stats
      (request_update published_core) (Inr (example_reading 12 34 12))) 12) 12)"
    by (rule r_history_cleanup)
  then have "reachable ((cleanup_process_history (cleanup_process_cache (update_system_stats
      (request_update published_core) (Inr (example_reading 12 34 12))) 12) 12)
      \<lparr>update_event := False\<rparr>)"
    by (rule r_clear)
  then show ?thesis
    unfolding mid_update_core_def by (rule r_read)
qed

text \<open>
  C6: the list is in order when it is published, but not every list
  \<open>get_process_list\<close> returns is. The full update of \<open>example_env\<close> publishes the
  objects of PID 2 (average 50) and PID 1 (average 10). During the next full update,
  2 seconds later, the cheap path assigns the new average 55 to the cached object of
  PID 1, which is the second element of the published list: a call of
  \<open>get_process_list\<close> at that moment returns the averages 50, 55.
\<close>

theorem published_list_mutated_in_place:
  "map (\<lambda>i. (pid i, avg_cpu_percent i))
     (view published_core (get_process_list published_core)) = [(2, 50), (1, 10)] \<and>
   sorted_by_avg_desc (view published_core (get_process_list published_core)) \<and>
   reachable mid_update_core \<and>
   get_process_list mid_update_core = get_process_list published_core \<and>
   map (\<lambda>i. (pid i, avg_cpu_percent i))
     (view mid_update_core (get_process_list mid_update_core)) = [(2, 50), (1, 55)] \<and>
   \<not> sorted_by_avg_desc (view mid_update_core (get_process_list mid_update_core))"
  using reachable_mid_update_core
  by (simp add: view_def get_process_list_def sorted_by_avg_desc_def published_core_state
      mid_update_core_state)


section \<open>Update requests\<close>

lemma request_update_twice: "request_update (request_update s) = request_update s"
  by (simp add: request_update_def)

lemma request_update_funpow: "0 < n \<Longrightarrow> (request_update ^^ n) s = request_update s"
proof (induction n)
  case 0
  then show ?case by simp
next
  case (Suc n)
  show ?case
  proof (cases "n = 0")
    case True
    then show ?thesis by simp
  next
    case False
    with Suc show ?thesis by (simp add: request_update_twice)
  qed
qed

text \<open>The state a loop iteration decides on, after the statistics and the two cleanups.\<close>

lemma prepared_request:
  "(cleanup_process_history (cleanup_process_cache
      (update_system_stats (request_update s) reading) t1) t2)\<lparr>update_event := False\<rparr> =
   (cleanup_process_history (cleanup_process_cache
      (update_system_stats s reading) t1) t2)\<lparr>update_event := False\<rparr>"
  by (simp add: cleanup_process_history_def cleanup_process_cache_def
      update_system_stats_def request_update_def Let_def split: sum.split)

lemma update_event_prepared:
  "update_event (cleanup_process_history (cleanup_process_cache
      (update_system_stats s reading) t1) t2) = update_event s"
  by (simp add: cleanup_process_history_def cleanup_process_cache_def
      update_system_stats_def Let_def split: sum.split)

lemma update_queue_prepared:
  "update_queue (cleanup_process_history (cleanup_process_cache
      (update_system_stats s reading) t1) t2) = update_queue s"
  by (simp add: cleanup_process_history_def cleanup_process_cache_def
      update_system_stats_def Let_def split: sum.split)

lemma update_event_full_update: "update_event (full_update s env) = update_event s"
  using full_update_shape [of s env] by (auto simp: same_control_def)

lemma update_queue_full_update: "update_queue (full_update s env) = update_queue s @ [True]"
  using full_update_shape [of s env] by (auto simp: same_control_def)

lemma iteration_requested:
  "monitor_iteration env (request_update s, l) =
     (full_update
        ((cleanup_process_history (cleanup_process_cache
            (update_system_stats s (env_stats env)) (env_cache_time env))
            (env_history_time env))\<lparr>update_event := False\<rparr>) env,
      env_time env)"
proof -
  have "update_event (cleanup_process_history (cleanup_process_cache
      (update_system_stats (request_update s) (env_stats env)) (env_cache_time env))
      (env_history_time env))"
    by (simp add: update_event_prepared request_update_def)
  then show ?thesis
    by (simp add: monitor_iteration_def Let_def prepared_request)
qed

lemma iteration_idle:
  assumes "\<not> update_event s" and "env_time env - l < 5"
  shows "update_queue (fst (monitor_iteration env (s, l))) = update_queue s"
    and "process_data (fst (monitor_iteration env (s, l))) = process_data s"
    and "update_event (fst (monitor_iteration env (s, l))) = False"
    and "heap (fst (monitor_iteration env (s, l))) = heap s"
  using assms
  by (simp_all add: monitor_iteration_def Let_def update_event_prepared update_queue_prepared
      process_data_before_full_update heap_before_full_update)

text \<open>
  C7: any number \<open>n \<ge> 1\<close> of calls of \<open>request_update\<close> before the next loop
  iteration leaves the engine as one call does; that iteration performs one full update
  whatever the timer says, clears the event and puts one notification on the update
  queue; the iteration after it, less than 5 seconds later, performs no full update: it
  puts no notification on the queue and leaves the published list and its objects as
  they are.
\<close>

theorem request_update_coalesces:
  assumes "0 < n"
  shows "(request_update ^^ n) s = request_update s \<and>
         monitor_iteration env ((request_update ^^ n) s, l) =
           (full_update
              ((cleanup_process_history (cleanup_process_cache
                  (update_system_stats s (env_stats env)) (env_cache_time env))
                  (env_history_time env))\<lparr>update_event := False\<rparr>) env,
            env_time env) \<and>
         update_event (fst (monitor_iteration env ((request_update ^^ n) s, l))) = False \<and>
         update_queue (fst (monitor_iteration env ((request_update ^^ n) s, l))) =
           update_queue s @ [True] \<and>
         (env_time env' - env_time env < 5 \<longrightarrow>
            update_queue (fst (monitor_iteration env'
              (monitor_iteration env ((request_update ^^ n) s, l)))) = update_queue s @ [True] \<and>
            get_process_list (fst (monitor_iteration env'
              (monitor_iteration env ((request_update ^^ n) s, l)))) =
            get_process_list (fst (monitor_iteration env ((request_update ^^ n) s, l))) \<and>
            view (fst (monitor_iteration env'
                (monitor_iteration env ((request_update ^^ n) s, l))))
              (get_process_list (fst (monitor_iteration env'
                (monitor_iteration env ((request_update ^^ n) s, l))))) =
            view (fst (monitor_iteration env ((request_update ^^ n) s, l)))
              (get_process_list (fst (monitor_iteration env ((request_update ^^ n) s, l)))))"
proof -
  let ?s3 = "(cleanup_process_history (cleanup_process_cache
                  (update_system_stats s (env_stats env)) (env_cache_time env))
                  (env_history_time env))\<lparr>update_event := False\<rparr>"
  have n: "(request_update ^^ n) s = request_update s"
    using assms by (rule request_update_funpow)
  have it: "monitor_iteration env ((request_update ^^ n) s, l) = (full_update ?s3 env, env_time env)"
    by (simp add: n iteration_requested)
  have ev: "update_event (full_update ?s3 env) = False"
    by (simp add: update_event_full_update)
  have qu: "update_queue (full_update ?s3 env) = update_queue s @ [True]"
    by (simp add: update_queue_full_update update_queue_prepared)
  have idle: "env_time env' - env_time env < 5 \<longrightarrow>
      update_queue (fst (monitor_iteration env' (full_update ?s3 env, env_time env))) =
        update_queue s @ [True] \<and>
      process_data (fst (monitor_iteration env' (full_update ?s3 env, env_time env))) =
        process_data (full_update ?s3 env) \<and>
      heap (fst (monitor_iteration env' (full_update ?s3 env, env_time env))) =
        heap (full_update ?s3 env)"
    using iteration_idle(1,2,4) [of "full_update ?s3 env" env' "env_time env"] ev qu by simp
  show ?thesis
    using n it ev qu idle by (simp add: get_process_list_def view_def)
qed


theorem request_update_coalesces_witness:
  "0 < (5::nat) \<and>
   (request_update ^^ 5) example_core = request_update example_core \<and>
   update_queue (fst (monitor_iteration example_env (example_core, 10))) = [] \<and>
   update_event (fst (monitor_iteration example_env ((request_update ^^ 5) example_core, 10)))
     = False \<and>
   update_queue (fst (monitor_iteration example_env ((request_update ^^ 5) example_core, 10)))
     = [True] \<and>
   env_time (example_env\<lparr>env_time := 12\<rparr>) - env_time example_env < 5 \<and>
   update_queue (fst (monitor_iteration (example_env\<lparr>env_time := 12\<rparr>)
     (monitor_iteration example_env ((request_update ^^ 5) example_core, 10)))) = [True]"
proof -
  have pos: "0 < (5::nat)" by simp
  have q: "update_queue example_core = []" "\<not> update_event example_core"
    by (simp_all add: example_core_def)
  have t: "env_time example_env - 10 < 5"
    "env_time (example_env\<lparr>env_time := 12\<rparr>) - env_time example_env < 5"
    by (simp_all add: example_env_def)
  have idle: "update_queue (fst (monitor_iteration example_env (example_core, 10))) = []"
    using iteration_idle(1) [OF q(2) t(1)] q(1) by simp
  show ?thesis
    using request_update_coalesces [OF pos, of example_core example_env 10
        "example_env\<lparr>env_time := 12\<rparr>"] q(1) t(2) idle
    by auto
qed


section \<open>Status and the cache paths of the per-process read\<close>

text \<open>The outcomes of the cheap path.\<close>

lemma cheap_refresh_success:
  assumes "proc_cpu_percent proc = Inr c" and "proc_memory_percent proc = Inr m"
  shows "cheap_refresh s proc e t1 t2 =
     (Some (info e),
      (update_process_cpu_history s (proc_pid proc) c t1)\<lparr>heap :=
         (heap s)(info e := (heap s (info e))\<lparr>cpu_percent := c, memory_percent := m,
            status := status_of s c,
            avg_cpu_percent :=
              calculate_average_cpu (update_process_cpu_history s (proc_pid proc) c t1)
                (proc_pid proc) t2\<rparr>)\<rparr>)"
  using assms
  by (simp add: cheap_refresh_def Let_def update_object_def update_process_cpu_history_def
      status_of_def calculate_average_cpu_def)

lemma cheap_refresh_failure_cpu:
  assumes "isl (proc_cpu_percent proc)"
  shows "cheap_refresh s proc e t1 t2 = (None, s)"
  using assms by (auto simp: cheap_refresh_def split: sum.splits)

lemma cheap_refresh_failure_memory:
  assumes "proc_cpu_percent proc = Inr c" and "isl (proc_memory_percent proc)"
  shows "cheap_refresh s proc e t1 t2 =
     (None, update_object s (info e) (\<lambda>i. i\<lparr>cpu_percent := c\<rparr>))"
  using assms by (auto simp: cheap_refresh_def Let_def split: sum.splits)

text \<open>
  C1: the status field does not follow the rolling average. With threshold 70, a
  process read at 90 percent whose rolling average is 50 gets the status \<open>HIGH\<close>,
  and one read at 50 percent whose rolling average is 75 gets \<open>Normal\<close>: lines 172
  and 204 compare the instantaneous CPU percent with the threshold.
\<close>

theorem status_uses_instantaneous_cpu:
  "threshold example_core = 70 \<and>
   map_option (\<lambda>i. (cpu_percent i, avg_cpu_percent i, status i))
     (result_info (get_process_info (record_samples example_core 5 [(0, 10)])
        (readable_process 5 ''a'' 90 1) 1 1 1)) = Some (90, 50, ''HIGH'') \<and>
   map_option (\<lambda>i. (cpu_percent i, avg_cpu_percent i, status i))
     (result_info (get_process_info (record_samples example_core 5 [(0, 100)])
        (readable_process 5 ''a'' 50 1) 1 1 1)) = Some (50, 75, ''Normal'')"
  by (simp add: result_info_def get_process_info_def full_read_def new_object_def
      record_samples_def update_process_cpu_history_def calculate_average_cpu_def status_of_def
      example_core_def readable_process_def history_window_def Let_def)

text \<open>
  C3, as stated, fails on the code. For an entry of age 1, younger than the TTL: when
  \<open>memory_percent()\<close> is denied, the entry is dropped and a full read is made (the
  name is read again and the entry rewritten with the time of the query); when both
  reads succeed, the cheap path refreshes the status and the rolling average too, not
  only the CPU and memory percent.
\<close>

theorem cache_ttl_counterexample:
  "map_option (\<lambda>e. (name (heap cached_core (info e)), status (heap cached_core (info e)),
       avg_cpu_percent (heap cached_core (info e)), timestamp e))
     (process_cache cached_core 5) = Some (''old'', ''Normal'', 10, 0) \<and>
   (1::real) - 0 < cache_ttl \<and>
   map_option (\<lambda>i. (name i, status i))
     (result_info (get_process_info cached_core
        ((readable_process 5 ''new'' 90 1)\<lparr>proc_memory_percent := Inl AccessDenied\<rparr>) 1 1 1))
     = Some (''new'', ''N/A'') \<and>
   map_option timestamp
     (process_cache (snd (get_process_info cached_core
        ((readable_process 5 ''new'' 90 1)\<lparr>proc_memory_percent := Inl AccessDenied\<rparr>) 1 1 1)) 5)
     = Some 1 \<and>
   map_option (\<lambda>i. (name i, status i, avg_cpu_percent i))
     (result_info (get_process_info cached_core (readable_process 5 ''new'' 90 1) 1 1 1))
     = Some (''old'', ''HIGH'', 90)"
  by (simp add: result_info_def get_process_info_def full_read_def read_failed_def
      cheap_refresh_def update_object_def new_object_def
      update_process_cpu_history_def calculate_average_cpu_def status_of_def
      cached_core_def example_core_def example_info_def readable_process_def
      history_window_def cache_ttl_def Let_def)

text \<open>
  C3, amended: for a cached PID, a query at an entry age below 5 seconds whose
  \<open>cpu_percent()\<close> and \<open>memory_percent()\<close> calls succeed returns the cached object
  with the CPU percent, memory percent, status and rolling average refreshed in place,
  the other fields and the cache entry with its timestamp kept, and no full read; when
  one of the two calls raises, the entry is deleted and a full read is made (after
  \<open>cpu_percent()\<close> succeeded, with the CPU percent already assigned to the old
  object); a query at an age of 5 seconds or more makes a full read, which on success
  builds a new object, reads the name again and stamps the entry with the time of the
  query.
\<close>

theorem cache_ttl_paths:
  assumes "process_cache s (proc_pid proc) = Some e"
  shows "(t0 - timestamp e < 5 \<longrightarrow>
            proc_cpu_percent proc = Inr c \<longrightarrow> proc_memory_percent proc = Inr m \<longrightarrow>
            get_process_info s proc t0 t1 t2 =
              (Some (info e),
               (update_process_cpu_history s (proc_pid proc) c t1)\<lparr>heap :=
                  (heap s)(info e := (heap s (info e))\<lparr>cpu_percent := c,
                     memory_percent := m, status := status_of s c,
                     avg_cpu_percent :=
                       calculate_average_cpu
                         (update_process_cpu_history s (proc_pid proc) c t1)
                         (proc_pid proc) t2\<rparr>)\<rparr>)) \<and>
         (t0 - timestamp e < 5 \<longrightarrow> isl (proc_cpu_percent proc) \<longrightarrow>
            get_process_info s proc t0 t1 t2 =
              full_read (s\<lparr>process_cache := (process_cache s)(proc_pid proc := None)\<rparr>)
                proc t0 t1 t2) \<and>
         (t0 - timestamp e < 5 \<longrightarrow>
            proc_cpu_percent proc = Inr c \<longrightarrow> isl (proc_memory_percent proc) \<longrightarrow>
            get_process_info s proc t0 t1 t2 =
              full_read
                ((update_object s (info e) (\<lambda>i. i\<lparr>cpu_percent := c\<rparr>))\<lparr>process_cache :=
                   (process_cache s)(proc_pid proc := None)\<rparr>)
                proc t0 t1 t2) \<and>
         (5 \<le> t0 - timestamp e \<longrightarrow>
            get_process_info s proc t0 t1 t2 = full_read s proc t0 t1 t2) \<and>
         (5 \<le> t0 - timestamp e \<longrightarrow> proc_name proc = Inr nm \<longrightarrow>
            proc_cpu_percent proc = Inr c \<longrightarrow> proc_memory_percent proc = Inr m \<longrightarrow>
            fst (get_process_info s proc t0 t1 t2) = Some (next_ref s) \<and>
            map_option name (result_info (get_process_info s proc t0 t1 t2)) = Some nm \<and>
            map_option timestamp
              (process_cache (snd (get_process_info s proc t0 t1 t2)) (proc_pid proc)) = Some t0)"
proof -
  have fresh: "get_process_info s proc t0 t1 t2 =
      (case cheap_refresh s proc e t1 t2 of
         (Some r, s') \<Rightarrow> (Some r, s')
       | (None, s') \<Rightarrow>
           full_read (s'\<lparr>process_cache := (process_cache s')(proc_pid proc := None)\<rparr>)
             proc t0 t1 t2)"
    if "t0 - timestamp e < 5"
    using assms that by (simp add: get_process_info_def cache_ttl_def)
  have stale: "get_process_info s proc t0 t1 t2 = full_read s proc t0 t1 t2"
    if "5 \<le> t0 - timestamp e"
    using assms that by (simp add: get_process_info_def cache_ttl_def)
  have reread: "fst (full_read s proc t0 t1 t2) = Some (next_ref s) \<and>
      map_option name (result_info (full_read s proc t0 t1 t2)) = Some nm \<and>
      map_option timestamp (process_cache (snd (full_read s proc t0 t1 t2)) (proc_pid proc))
        = Some t0"
    if "proc_name proc = Inr nm" "proc_cpu_percent proc = Inr c" "proc_memory_percent proc = Inr m"
    using that
    by (simp add: full_read_def new_object_def result_info_def update_process_cpu_history_def
        Let_def)
  have a: "get_process_info s proc t0 t1 t2 =
              (Some (info e),
               (update_process_cpu_history s (proc_pid proc) c t1)\<lparr>heap :=
                  (heap s)(info e := (heap s (info e))\<lparr>cpu_percent := c,
                     memory_percent := m, status := status_of s c,
                     avg_cpu_percent :=
                       calculate_average_cpu
                         (update_process_cpu_history s (proc_pid proc) c t1)
                         (proc_pid proc) t2\<rparr>)\<rparr>)"
    if "t0 - timestamp e < 5" "proc_cpu_percent proc = Inr c" "proc_memory_percent proc = Inr m"
    using fresh [OF that(1)] cheap_refresh_success [OF that(2,3), of s e t1 t2] by simp
  have b: "get_process_info s proc t0 t1 t2 =
              full_read (s\<lparr>process_cache := (process_cache s)(proc_pid proc := None)\<rparr>)
                proc t0 t1 t2"
    if "t0 - timestamp e < 5" "isl (proc_cpu_percent proc)"
    using fresh [OF that(1)] cheap_refresh_failure_cpu [OF that(2), of s e t1 t2] by simp
  have d: "get_process_info s proc t0 t1 t2 =
              full_read
                ((update_object s (info e) (\<lambda>i. i\<lparr>cpu_percent := c\<rparr>))\<lparr>process_cache :=
                   (process_cache s)(proc_pid proc := None)\<rparr>)
                proc t0 t1 t2"
    if "t0 - timestamp e < 5" "proc_cpu_percent proc = Inr c" "isl (proc_memory_percent proc)"
    using fresh [OF that(1)] cheap_refresh_failure_memory [OF that(2,3), of s e t1 t2]
    by (simp add: update_object_def)
  show ?thesis
    using a b d stale reread by simp
qed

theorem cache_ttl_paths_witness:
  "process_cache cached_core (proc_pid (readable_process 5 ''new'' 90 1)) =
     Some \<lparr>info = 0, timestamp = 0\<rparr> \<and>
   name (heap cached_core 0) = ''old'' \<and>
   (4.9999::real) - 0 < 5 \<and> (5::real) \<le> 5.0001 - 0 \<and>
   fst (get_process_info cached_core (readable_process 5 ''new'' 90 1) 4.9999 4.9999 4.9999)
     = Some 0 \<and>
   map_option (\<lambda>i. (name i, cpu_percent i, memory_percent i))
     (result_info
        (get_process_info cached_core (readable_process 5 ''new'' 90 1) 4.9999 4.9999 4.9999))
     = Some (''old'', 90, 1) \<and>
   map_option timestamp
     (process_cache (snd (get_process_info cached_core (readable_process 5 ''new'' 90 1)
        4.9999 4.9999 4.9999)) 5) = Some 0 \<and>
   fst (get_process_info cached_core (readable_process 5 ''new'' 90 1) 5.0001 5.0001 5.0001)
     = Some 1 \<and>
   map_option name
     (result_info
        (get_process_info cached_core (readable_process 5 ''new'' 90 1) 5.0001 5.0001 5.0001))
     = Some ''new'' \<and>
   map_option timestamp
     (process_cache (snd (get_process_info cached_core (readable_process 5 ''new'' 90 1)
        5.0001 5.0001 5.0001)) 5) = Some 5.0001 \<and>
   isl (proc_cpu_percent (failing_process 5 NoSuchProcess)) \<and>
   result_info (get_process_info cached_core (failing_process 5 NoSuchProcess) 1 1 1) = None"
proof -
  let ?P = "readable_process 5 ''new'' 90 1"
  let ?e = "\<lparr>info = 0, timestamp = 0\<rparr>"
  have c: "process_cache cached_core (proc_pid ?P) = Some ?e"
    by (simp add: cached_core_def readable_process_def)
  have c': "process_cache cached_core (proc_pid (failing_process 5 NoSuchProcess)) = Some ?e"
    by (simp add: cached_core_def failing_process_def)
  have h: "name (heap cached_core 0) = ''old''" "next_ref cached_core = 1"
    by (simp_all add: cached_core_def example_info_def)
  have r: "proc_name ?P = Inr ''new''" "proc_cpu_percent ?P = Inr 90"
    "proc_memory_percent ?P = Inr 1" "proc_pid ?P = 5"
    by (simp_all add: readable_process_def)
  have f: "isl (proc_cpu_percent (failing_process 5 NoSuchProcess))"
    by (simp add: failing_process_def)
  have gone: "result_info (full_read
      (cached_core\<lparr>process_cache :=
         (process_cache cached_core)(proc_pid (failing_process 5 NoSuchProcess) := None)\<rparr>)
      (failing_process 5 NoSuchProcess) 1 1 1) = None"
    by (simp add: full_read_def read_failed_def failing_process_def result_info_def)
  have "get_process_info cached_core ?P 4.9999 4.9999 4.9999 =
      (Some (info ?e),
       (update_process_cpu_history cached_core (proc_pid ?P) 90 4.9999)\<lparr>heap :=
          (heap cached_core)(info ?e := (heap cached_core (info ?e))\<lparr>cpu_percent := 90,
             memory_percent := 1, status := status_of cached_core 90,
             avg_cpu_percent :=
               calculate_average_cpu
                 (update_process_cpu_history cached_core (proc_pid ?P) 90 4.9999)
                 (proc_pid ?P) 4.9999\<rparr>)\<rparr>)"
    using cache_ttl_paths [OF c, of "4.9999" 90 1 "4.9999" "4.9999" "''new''"] r(2,3)
    by simp
  then have cheap: "fst (get_process_info cached_core ?P 4.9999 4.9999 4.9999) = Some 0"
    "map_option (\<lambda>i. (name i, cpu_percent i, memory_percent i))
       (result_info (get_process_info cached_core ?P 4.9999 4.9999 4.9999))
       = Some (''old'', 90, 1)"
    "map_option timestamp
       (process_cache (snd (get_process_info cached_core ?P 4.9999 4.9999 4.9999)) 5) = Some 0"
    using c h(1) by (simp_all add: result_info_def r(4) update_process_cpu_history_def)
  have full: "fst (get_process_info cached_core ?P 5.0001 5.0001 5.0001) = Some 1"
    "map_option name (result_info (get_process_info cached_core ?P 5.0001 5.0001 5.0001))
       = Some ''new''"
    "map_option timestamp
       (process_cache (snd (get_process_info cached_core ?P 5.0001 5.0001 5.0001)) 5)
       = Some 5.0001"
    using cache_ttl_paths [OF c, of "5.0001" 90 1 "5.0001" "5.0001" "''new''"] r h(2)
    by auto
  have "get_process_info cached_core (failing_process 5 NoSuchProcess) 1 1 1 =
      full_read
        (cached_core\<lparr>process_cache :=
           (process_cache cached_core)(proc_pid (failing_process 5 NoSuchProcess) := None)\<rparr>)
        (failing_process 5 NoSuchProcess) 1 1 1"
    using cache_ttl_paths [OF c', of 1 90 1 1 1 "''new''"] f by simp
  with gone have evicted:
    "result_info (get_process_info cached_core (failing_process 5 NoSuchProcess) 1 1 1) = None"
    by simp
  show ?thesis
    using c h(1) cheap full f evicted by simp
qed


section \<open>Reads the operating system denies\<close>

lemma full_read_success:
  assumes "proc_name proc = Inr nm" and "proc_cpu_percent proc = Inr c"
    and "proc_memory_percent proc = Inr m"
  shows "result_info (full_read s proc t0 t1 t2) =
     Some \<lparr>name = nm, pid = proc_pid proc, cpu_percent = c, memory_percent = m,
           username = (case proc_username proc of Inr u \<Rightarrow> u | Inl e \<Rightarrow> ''N/A''),
           status = status_of s c,
           command = (case proc_cmdline proc of
                        Inl e \<Rightarrow> nm
                      | Inr cmdline \<Rightarrow>
                          if cmdline \<noteq> [] then join_space cmdline
                          else (case proc_exe proc of Inr x \<Rightarrow> x | Inl e \<Rightarrow> nm)),
           create_time = (case proc_create_time proc of Inr ct \<Rightarrow> ct | Inl e \<Rightarrow> 0),
           threads = (case proc_num_threads proc of Inr n \<Rightarrow> n | Inl e \<Rightarrow> 0),
           avg_cpu_percent =
             calculate_average_cpu (update_process_cpu_history s (proc_pid proc) c t1)
               (proc_pid proc) t2\<rparr>"
  using assms by (simp add: full_read_def new_object_def result_info_def Let_def)

lemma full_read_denied:
  assumes "proc_name proc = Inr nm"
    and "proc_cpu_percent proc = Inl AccessDenied \<or>
         (proc_cpu_percent proc = Inr c \<and> proc_memory_percent proc = Inl AccessDenied)"
  shows "result_info (full_read s proc t0 t1 t2) =
     Some \<lparr>name = nm, pid = proc_pid proc, cpu_percent = 0, memory_percent = 0,
           username = ''N/A'', status = ''N/A'', command = ''Access Denied'',
           create_time = 0, threads = 0, avg_cpu_percent = 0\<rparr>"
  using assms by (auto simp: full_read_def read_failed_def new_object_def result_info_def)

lemma status_of_values: "status_of s c \<in> {''Normal'', ''HIGH''}"
  by (simp add: status_of_def)

lemma read_failed_status:
  "result_info (read_failed s proc t e) = Some i \<Longrightarrow> status i = ''N/A''"
  by (auto simp: read_failed_def new_object_def result_info_def split: error.splits sum.splits)

lemma full_read_status:
  assumes "result_info (full_read s proc t0 t1 t2) = Some i"
  shows "status i \<in> {''Normal'', ''HIGH'', ''N/A''}"
proof (cases "proc_name proc")
  case (Inl e)
  with assms read_failed_status show ?thesis by (simp add: full_read_def)
next
  case name: (Inr nm)
  show ?thesis
  proof (cases "proc_cpu_percent proc")
    case (Inl e)
    with assms name read_failed_status show ?thesis by (simp add: full_read_def)
  next
    case c: (Inr c)
    show ?thesis
    proof (cases "proc_memory_percent proc")
      case (Inl e)
      with assms name c read_failed_status show ?thesis by (simp add: full_read_def)
    next
      case (Inr m)
      with assms full_read_success [OF name c Inr, of s t0 t1 t2]
      have "status i = status_of s c" by auto
      then show ?thesis using status_of_values [of s c] by auto
    qed
  qed
qed

text \<open>
  With the name readable, a denied read degrades to sentinel values: denied the CPU or the
  memory percent, the full read returns the record of sentinel values with the status
  \<open>N/A\<close> (the code's spelling of Unknown); denied only the user, the creation time,
  the thread count or the command line, it returns \<open>N/A\<close>, 0, 0 and the name in
  those fields; the status of every \<open>ProcessInfo\<close> a full read returns is one of
  \<open>Normal\<close>, \<open>HIGH\<close> and \<open>N/A\<close>.
\<close>

lemma denied_read_degrades:
  assumes "proc_name proc = Inr nm"
  shows "(proc_cpu_percent proc = Inl AccessDenied \<or>
          (proc_cpu_percent proc = Inr c \<and> proc_memory_percent proc = Inl AccessDenied) \<longrightarrow>
            result_info (full_read s proc t0 t1 t2) =
              Some \<lparr>name = nm, pid = proc_pid proc, cpu_percent = 0, memory_percent = 0,
                    username = ''N/A'', status = ''N/A'', command = ''Access Denied'',
                    create_time = 0, threads = 0, avg_cpu_percent = 0\<rparr>) \<and>
         (proc_cpu_percent proc = Inr c \<and> proc_memory_percent proc = Inr m \<longrightarrow>
            (\<exists>i. result_info (full_read s proc t0 t1 t2) = Some i \<and>
                 name i = nm \<and> cpu_percent i = c \<and> memory_percent i = m \<and>
                 status i \<in> {''Normal'', ''HIGH''} \<and>
                 (isl (proc_username proc) \<longrightarrow> username i = ''N/A'') \<and>
                 (isl (proc_create_time proc) \<longrightarrow> create_time i = 0) \<and>
                 (isl (proc_num_threads proc) \<longrightarrow> threads i = 0) \<and>
                 (isl (proc_cmdline proc) \<longrightarrow> command i = nm))) \<and>
         (\<forall>i. result_info (full_read s proc t0 t1 t2) = Some i \<longrightarrow>
              status i \<in> {''Normal'', ''HIGH'', ''N/A''}) \<and>
         (process_cache s (proc_pid proc) = None \<longrightarrow>
            get_process_info s proc t0 t1 t2 = full_read s proc t0 t1 t2)"
proof -
  have a: "result_info (full_read s proc t0 t1 t2) =
              Some \<lparr>name = nm, pid = proc_pid proc, cpu_percent = 0, memory_percent = 0,
                    username = ''N/A'', status = ''N/A'', command = ''Access Denied'',
                    create_time = 0, threads = 0, avg_cpu_percent = 0\<rparr>"
    if "proc_cpu_percent proc = Inl AccessDenied \<or>
          (proc_cpu_percent proc = Inr c \<and> proc_memory_percent proc = Inl AccessDenied)"
    using assms that by (rule full_read_denied)
  have b: "\<exists>i. result_info (full_read s proc t0 t1 t2) = Some i \<and>
                 name i = nm \<and> cpu_percent i = c \<and> memory_percent i = m \<and>
                 status i \<in> {''Normal'', ''HIGH''} \<and>
                 (isl (proc_username proc) \<longrightarrow> username i = ''N/A'') \<and>
                 (isl (proc_create_time proc) \<longrightarrow> create_time i = 0) \<and>
                 (isl (proc_num_threads proc) \<longrightarrow> threads i = 0) \<and>
                 (isl (proc_cmdline proc) \<longrightarrow> command i = nm)"
    if "proc_cpu_percent proc = Inr c \<and> proc_memory_percent proc = Inr m"
    using full_read_success [OF assms, of c m s t0 t1 t2] that status_of_values [of s c]
    by (auto split: sum.splits)
  have d: "get_process_info s proc t0 t1 t2 = full_read s proc t0 t1 t2"
    if "process_cache s (proc_pid proc) = None"
    using that by (simp add: get_process_info_def)
  show ?thesis
    using a b d full_read_status [of s proc t0 t1 t2] by blast
qed

text \<open>
  C8: when the operating system denies \<open>name()\<close>, the read returns nothing instead
  of a \<open>ProcessInfo\<close> of sentinel values: the handler for a denied process builds its
  record with \<open>process.name() if hasattr(process, 'name') else "Access Denied"\<close>
  (line 256), the test holds for every process, so \<open>name()\<close> is called again and
  raises again. This is so when only the name is denied, when everything is denied,
  and when everything but the CPU percent is denied.
\<close>

theorem denied_name_read_fails:
  "proc_name ((readable_process 9 ''svc'' 3 1)\<lparr>proc_name := Inl AccessDenied\<rparr>)
     = Inl AccessDenied \<and>
   result_info (get_process_info example_core
     ((readable_process 9 ''svc'' 3 1)\<lparr>proc_name := Inl AccessDenied\<rparr>) 1 1 1) = None \<and>
   proc_name (failing_process 9 AccessDenied) = Inl AccessDenied \<and>
   result_info (get_process_info example_core (failing_process 9 AccessDenied) 1 1 1) = None \<and>
   proc_cpu_percent ((failing_process 9 AccessDenied)\<lparr>proc_cpu_percent := Inr 3\<rparr>) = Inr 3 \<and>
   result_info (get_process_info example_core
     ((failing_process 9 AccessDenied)\<lparr>proc_cpu_percent := Inr 3\<rparr>) 1 1 1) = None \<and>
   result_info (get_process_info example_core
     ((readable_process 9 ''svc'' 3 1)\<lparr>proc_cpu_percent := Inl AccessDenied\<rparr>) 1 1 1) =
     Some \<lparr>name = ''svc'', pid = 9, cpu_percent = 0, memory_percent = 0,
           username = ''N/A'', status = ''N/A'', command = ''Access Denied'',
           create_time = 0, threads = 0, avg_cpu_percent = 0\<rparr>"
  by (simp add: result_info_def get_process_info_def full_read_def read_failed_def
      new_object_def example_core_def failing_process_def readable_process_def)


section \<open>Terminating a process\<close>

lemma pids_kept_refl: "pids_kept s s"
  by (simp add: pids_kept_def)

lemma pids_kept_trans: "pids_kept s s1 \<Longrightarrow> pids_kept s1 s2 \<Longrightarrow> pids_kept s s2"
  by (auto simp: pids_kept_def)

lemma cache_keyed_delete:
  "cache_keyed s \<Longrightarrow> cache_keyed (s\<lparr>process_cache := (process_cache s)(p := None)\<rparr>)"
  by (simp add: cache_keyed_def)

lemma pids_kept_cache: "pids_kept s (s\<lparr>process_cache := c\<rparr>)"
  by (simp add: pids_kept_def)

text \<open>An assignment to a field other than the PID.\<close>

lemma update_object_keyed:
  assumes "cache_keyed s" and "\<And>i. pid (f i) = pid i"
  shows "cache_keyed (update_object s r f)" and "pids_kept s (update_object s r f)"
  using assms by (auto simp: cache_keyed_def pids_kept_def update_object_def)

lemma history_keyed:
  assumes "cache_keyed s"
  shows "cache_keyed (update_process_cpu_history s p c t)"
    and "pids_kept s (update_process_cpu_history s p c t)"
  using assms by (auto simp: cache_keyed_def pids_kept_def update_process_cpu_history_def)

text \<open>A new object, filed in the cache under its PID.\<close>

lemma new_object_keyed:
  assumes "cache_keyed s" and "pid i = p"
  shows "cache_keyed ((snd (new_object s i))\<lparr>process_cache :=
           (process_cache (snd (new_object s i)))
             (p \<mapsto> \<lparr>info = fst (new_object s i), timestamp = t\<rparr>)\<rparr>)"
    and "pids_kept s ((snd (new_object s i))\<lparr>process_cache := c\<rparr>)"
    and "fst (new_object s i) < next_ref (snd (new_object s i))"
    and "pid (heap (snd (new_object s i)) (fst (new_object s i))) = p"
  using assms by (fastforce simp: cache_keyed_def pids_kept_def new_object_def)+

lemma read_kept_trans:
  "pids_kept s s1 \<Longrightarrow> read_kept s1 proc x \<Longrightarrow> read_kept s proc x"
  by (auto simp: read_kept_def intro: pids_kept_trans)

lemma cheap_refresh_kept:
  assumes "cache_keyed s" and "process_cache s (proc_pid proc) = Some e"
  shows "read_kept s proc (cheap_refresh s proc e t1 t2)"
proof -
  have k: "info e < next_ref s" "pid (heap s (info e)) = proc_pid proc"
    using assms by (auto simp: cache_keyed_def)
  show ?thesis
  proof (cases "proc_cpu_percent proc")
    case (Inl x)
    with assms(1) show ?thesis
      by (simp add: cheap_refresh_def read_kept_def pids_kept_refl)
  next
    case c: (Inr c)
    show ?thesis
    proof (cases "proc_memory_percent proc")
      case (Inl x)
      with c update_object_keyed [OF assms(1), of "\<lambda>i. i\<lparr>cpu_percent := c\<rparr>" "info e"]
      show ?thesis
        by (simp add: cheap_refresh_def read_kept_def Let_def)
    next
      case (Inr m)
      have "cheap_refresh s proc e t1 t2 =
        (Some (info e),
         (update_process_cpu_history s (proc_pid proc) c t1)\<lparr>heap :=
           (heap s)(info e := (heap s (info e))\<lparr>cpu_percent := c, memory_percent := m,
              status := status_of s c,
              avg_cpu_percent :=
                calculate_average_cpu (update_process_cpu_history s (proc_pid proc) c t1)
                  (proc_pid proc) t2\<rparr>)\<rparr>)"
        using c Inr by (rule cheap_refresh_success)
      then have s': "next_ref (snd (cheap_refresh s proc e t1 t2)) = next_ref s"
        "process_cache (snd (cheap_refresh s proc e t1 t2)) = process_cache s"
        "fst (cheap_refresh s proc e t1 t2) = Some (info e)"
        "\<And>r. pid (heap (snd (cheap_refresh s proc e t1 t2)) r) = pid (heap s r)"
        by (simp_all add: update_process_cpu_history_def)
      show ?thesis
        unfolding read_kept_def cache_keyed_def pids_kept_def s'
        using assms(1) k by (simp add: cache_keyed_def)
    qed
  qed
qed

lemma read_failed_kept:
  assumes "cache_keyed s"
  shows "read_kept s proc (read_failed s proc t e)"
proof (cases e)
  case NoSuchProcess
  with assms show ?thesis
    by (simp add: read_failed_def read_kept_def cache_keyed_delete pids_kept_cache)
next
  case AccessDenied
  show ?thesis
  proof (cases "proc_name proc")
    case (Inl x)
    with AccessDenied assms show ?thesis
      by (simp add: read_failed_def read_kept_def pids_kept_refl)
  next
    case (Inr nm)
    let ?i = "\<lparr>name = nm, pid = proc_pid proc, cpu_percent = 0,
                        memory_percent = 0, username = ''N/A'', status = ''N/A'',
                        command = ''Access Denied'', create_time = 0, threads = 0,
                        avg_cpu_percent = 0\<rparr>"
    have p: "pid ?i = proc_pid proc" by simp
    show ?thesis
      using AccessDenied Inr new_object_keyed [OF assms p]
      by (simp add: read_failed_def read_kept_def split_beta)
  qed
next
  case OtherError
  with assms show ?thesis
    by (simp add: read_failed_def read_kept_def pids_kept_refl)
qed

lemma full_read_kept:
  assumes "cache_keyed s"
  shows "read_kept s proc (full_read s proc t0 t1 t2)"
proof (cases "proc_name proc")
  case (Inl e)
  with read_failed_kept [OF assms] show ?thesis by (simp add: full_read_def)
next
  case name: (Inr nm)
  show ?thesis
  proof (cases "proc_cpu_percent proc")
    case (Inl e)
    with name read_failed_kept [OF assms] show ?thesis by (simp add: full_read_def)
  next
    case c: (Inr c)
    show ?thesis
    proof (cases "proc_memory_percent proc")
      case (Inl e)
      with name c read_failed_kept [OF assms] show ?thesis by (simp add: full_read_def)
    next
      case (Inr m)
      let ?s1 = "update_process_cpu_history s (proc_pid proc) c t1"
      let ?i = "\<lparr>name = nm, pid = proc_pid proc, cpu_percent = c, memory_percent = m,
           username = (case proc_username proc of Inr u \<Rightarrow> u | Inl e \<Rightarrow> ''N/A''),
           status = status_of s c,
           command = (case proc_cmdline proc of
                        Inl e \<Rightarrow> nm
                      | Inr cmdline \<Rightarrow>
                          if cmdline \<noteq> [] then join_space cmdline
                          else (case proc_exe proc of Inr x \<Rightarrow> x | Inl e \<Rightarrow> nm)),
           create_time = (case proc_create_time proc of Inr ct \<Rightarrow> ct | Inl e \<Rightarrow> 0),
           threads = (case proc_num_threads proc of Inr n \<Rightarrow> n | Inl e \<Rightarrow> 0),
           avg_cpu_percent = calculate_average_cpu ?s1 (proc_pid proc) t2\<rparr>"
      have p: "pid ?i = proc_pid proc" by simp
      have f: "full_read s proc t0 t1 t2 =
          (Some (fst (new_object ?s1 ?i)),
           (snd (new_object ?s1 ?i))\<lparr>process_cache :=
              (process_cache (snd (new_object ?s1 ?i)))
                (proc_pid proc \<mapsto> \<lparr>info = fst (new_object ?s1 ?i), timestamp = t0\<rparr>)\<rparr>)"
        using name c Inr by (simp add: full_read_def Let_def split_beta)
      have "read_kept ?s1 proc (full_read s proc t0 t1 t2)"
        using new_object_keyed [OF history_keyed(1) [OF assms, of "proc_pid proc" c t1] p]
        by (simp add: f read_kept_def)
      with history_keyed(2) [OF assms] show ?thesis by (rule read_kept_trans)
    qed
  qed
qed

lemma get_process_info_kept:
  assumes "cache_keyed s"
  shows "read_kept s proc (get_process_info s proc t0 t1 t2)"
proof (cases "process_cache s (proc_pid proc)")
  case None
  with full_read_kept [OF assms] show ?thesis by (simp add: get_process_info_def)
next
  case (Some e)
  show ?thesis
  proof (cases "t0 - timestamp e < cache_ttl")
    case False
    with Some full_read_kept [OF assms] show ?thesis by (simp add: get_process_info_def)
  next
    case True
    obtain r s' where c: "cheap_refresh s proc e t1 t2 = (r, s')"
      by (cases "cheap_refresh s proc e t1 t2")
    have k: "read_kept s proc (r, s')"
      using cheap_refresh_kept [OF assms Some, of t1 t2] c by simp
    show ?thesis
    proof (cases r)
      case None
      let ?s = "s'\<lparr>process_cache := (process_cache s')(proc_pid proc := None)\<rparr>"
      have "cache_keyed ?s" and "pids_kept s ?s"
        using k by (auto simp: read_kept_def cache_keyed_def pids_kept_def)
      then have "read_kept s proc (full_read ?s proc t0 t1 t2)"
        using full_read_kept [of ?s proc t0 t1 t2] by (auto intro: read_kept_trans)
      with Some True c None show ?thesis by (simp add: get_process_info_def)
    next
      case (Some x)
      with \<open>process_cache s (proc_pid proc) = Some e\<close> True c k show ?thesis
        by (simp add: get_process_info_def)
    qed
  qed
qed

lemma collect_infos_kept:
  assumes "cache_keyed s"
  shows "cache_keyed (snd (collect_infos s ps)) \<and> pids_kept s (snd (collect_infos s ps)) \<and>
         (\<forall>r \<in> set (fst (collect_infos s ps)).
            r < next_ref (snd (collect_infos s ps)) \<and>
            pid (heap (snd (collect_infos s ps)) r) \<in> (\<lambda>x. proc_pid (fst x)) ` set ps)"
  using assms
proof (induction s ps rule: collect_infos.induct)
  case (1 s)
  then show ?case by (simp add: pids_kept_refl)
next
  case (2 s proc t0 t1 t2 ps)
  obtain r s1 where g: "get_process_info s proc t0 t1 t2 = (r, s1)"
    by (cases "get_process_info s proc t0 t1 t2")
  obtain qs s2 where c: "collect_infos s1 ps = (qs, s2)" by (cases "collect_infos s1 ps")
  have k1: "cache_keyed s1" and p1: "pids_kept s s1"
    and r: "\<forall>x. r = Some x \<longrightarrow> x < next_ref s1 \<and> pid (heap s1 x) = proc_pid proc"
    using get_process_info_kept [OF "2.prems", of proc t0 t1 t2] g
    by (simp_all add: read_kept_def)
  have ih: "cache_keyed s2" "pids_kept s1 s2"
    "\<forall>x \<in> set qs. x < next_ref s2 \<and> pid (heap s2 x) \<in> (\<lambda>x. proc_pid (fst x)) ` set ps"
    using "2.IH" [OF g [symmetric] k1] c by simp_all
  have "\<forall>x. r = Some x \<longrightarrow> x < next_ref s2 \<and> pid (heap s2 x) = proc_pid proc"
    using r ih(2) by (auto simp: pids_kept_def)
  with ih p1 show ?case
    using g c by (auto split: option.splits intro: pids_kept_trans)
qed

lemma collect_alternative_kept:
  assumes "cache_keyed s"
  shows "cache_keyed (snd (collect_alternative s ps)) \<and>
         pids_kept s (snd (collect_alternative s ps)) \<and>
         (\<forall>r \<in> set (fst (collect_alternative s ps)).
            r < next_ref (snd (collect_alternative s ps)) \<and>
            pid (heap (snd (collect_alternative s ps)) r) \<in>
              set (concat (map (\<lambda>x. case fst x of Inl e \<Rightarrow> [] | Inr proc \<Rightarrow> [proc_pid proc])
                ps)))"
  using assms
proof (induction s ps rule: collect_alternative.induct)
  case (1 s)
  then show ?case by (simp add: pids_kept_refl)
next
  case (2 s e t0 t1 t2 ps)
  then show ?case by simp
next
  case (3 s proc t0 t1 t2 ps)
  obtain r s1 where g: "get_process_info s proc t0 t1 t2 = (r, s1)"
    by (cases "get_process_info s proc t0 t1 t2")
  obtain qs s2 where c: "collect_alternative s1 ps = (qs, s2)"
    by (cases "collect_alternative s1 ps")
  have k1: "cache_keyed s1" and p1: "pids_kept s s1"
    and r: "\<forall>x. r = Some x \<longrightarrow> x < next_ref s1 \<and> pid (heap s1 x) = proc_pid proc"
    using get_process_info_kept [OF "3.prems", of proc t0 t1 t2] g
    by (simp_all add: read_kept_def)
  have ih: "cache_keyed s2" "pids_kept s1 s2"
    "\<forall>x \<in> set qs. x < next_ref s2 \<and> pid (heap s2 x) \<in>
       set (concat (map (\<lambda>x. case fst x of Inl e \<Rightarrow> [] | Inr proc \<Rightarrow> [proc_pid proc]) ps))"
    using "3.IH" [OF g [symmetric] k1] c by simp_all
  have "\<forall>x. r = Some x \<longrightarrow> x < next_ref s2 \<and> pid (heap s2 x) = proc_pid proc"
    using r ih(2) by (auto simp: pids_kept_def)
  with ih p1 show ?case
    using g c by (auto split: option.splits intro: pids_kept_trans)
qed

lemma full_update_keyed:
  assumes "cache_keyed s"
  shows "cache_keyed (full_update s env) \<and>
         pid ` set (view (full_update s env) (process_data (full_update s env))) \<subseteq>
           set (enumerated_pids env)"
proof -
  define first where "first =
    (case env_process_iter env of
       Inl e \<Rightarrow> ([], s)
     | Inr process_iter \<Rightarrow>
         collect_infos s (take 100 (sort_key (\<lambda>x. - presort_key x) process_iter)))"
  obtain processes s1 where f: "first = (processes, s1)" by (cases first)
  have c1: "cache_keyed s1 \<and> (\<forall>r \<in> set processes. pid (heap s1 r) \<in> set (enumerated_pids env))"
  proof (cases "env_process_iter env")
    case (Inl e)
    with f assms show ?thesis by (simp add: first_def)
  next
    case (Inr process_iter)
    let ?L = "take 100 (sort_key (\<lambda>x. - presort_key x) process_iter)"
    have "set ?L \<subseteq> set process_iter"
      using set_take_subset [of 100 "sort_key (\<lambda>x. - presort_key x) process_iter"] by simp
    then have sub: "(\<lambda>x. proc_pid (fst x)) ` set ?L \<subseteq> set (enumerated_pids env)"
      using Inr by (auto simp: enumerated_pids_def)
    have "collect_infos s ?L = (processes, s1)"
      using Inr f by (simp add: first_def)
    then have "cache_keyed s1"
      and "\<forall>r \<in> set processes. pid (heap s1 r) \<in> (\<lambda>x. proc_pid (fst x)) ` set ?L"
      using collect_infos_kept [OF assms, of ?L] by simp_all
    with sub show ?thesis by blast
  qed
  define second where "second =
    (if processes = []
     then (case env_pids env of
             Inl e \<Rightarrow> ([], s1)
           | Inr pids \<Rightarrow> collect_alternative s1 (take 100 pids))
     else (processes, s1))"
  obtain processes' s2 where g: "second = (processes', s2)" by (cases second)
  have c2: "cache_keyed s2 \<and> (\<forall>r \<in> set processes'. pid (heap s2 r) \<in> set (enumerated_pids env))"
  proof (cases "processes = []")
    case False
    with g c1 show ?thesis by (simp add: second_def)
  next
    case True
    show ?thesis
    proof (cases "env_pids env")
      case (Inl e)
      with True g c1 show ?thesis by (simp add: second_def)
    next
      case (Inr pids)
      have sub: "set (concat (map (\<lambda>x. case fst x of Inl e \<Rightarrow> [] | Inr proc \<Rightarrow> [proc_pid proc])
          (take 100 pids))) \<subseteq> set (enumerated_pids env)"
        using Inr set_take_subset [of 100 pids] by (auto simp: enumerated_pids_def)
      have "collect_alternative s1 (take 100 pids) = (processes', s2)"
        using Inr True g by (simp add: second_def)
      then have "cache_keyed s2"
        and "\<forall>r \<in> set processes'. pid (heap s2 r) \<in>
          set (concat (map (\<lambda>x. case fst x of Inl e \<Rightarrow> [] | Inr proc \<Rightarrow> [proc_pid proc])
            (take 100 pids)))"
        using collect_alternative_kept [of s1 "take 100 pids"] c1 by simp_all
      with sub show ?thesis by blast
    qed
  qed
  have "full_update s env =
       s2\<lparr>process_data := sort_key (\<lambda>r. - avg_cpu_percent (heap s2 r)) processes',
          update_queue := update_queue s2 @ [True]\<rparr>"
    using f g by (simp add: full_update_def first_def [symmetric] second_def [symmetric])
  with c2 show ?thesis by (auto simp: cache_keyed_def view_def)
qed

lemma cache_keyed_prepared:
  assumes "cache_keyed s"
  shows "cache_keyed ((cleanup_process_history (cleanup_process_cache
      (update_system_stats s reading) t1) t2)\<lparr>update_event := b\<rparr>)"
  using assms
  by (auto simp: cache_keyed_def cleanup_process_history_def cleanup_process_cache_def
      update_system_stats_def Let_def split: sum.splits option.splits if_splits)

lemma cache_keyed_steps:
  assumes "cache_keyed s"
  shows "cache_keyed (update_system_stats s reading)"
    and "cache_keyed (cleanup_process_cache s t)"
    and "cache_keyed (cleanup_process_history s t)"
    and "cache_keyed (s\<lparr>update_event := b\<rparr>)"
  using assms
  by (auto simp: cache_keyed_def cleanup_process_history_def cleanup_process_cache_def
      update_system_stats_def Let_def split: sum.splits option.splits if_splits)

lemma cache_keyed_iteration:
  assumes "cache_keyed s"
  shows "cache_keyed (fst (monitor_iteration env (s, l)))"
  using full_update_keyed [OF cache_keyed_prepared [OF assms]]
    cache_keyed_steps(3) [OF cache_keyed_steps(2) [OF cache_keyed_steps(1) [OF assms]]]
  by (simp add: monitor_iteration_def Let_def)

lemma cache_keyed_kill: "cache_keyed s \<Longrightarrow> cache_keyed (snd (kill_process s p k))"
  by (simp add: kill_process_def cache_keyed_delete split: option.split error.split)

lemma cache_keyed_reachable: "reachable s \<Longrightarrow> cache_keyed s"
proof (induction rule: reachable.induct)
  case (r_init thr interval cnt t0 access s)
  then show ?case
    by (auto simp: init_core_def cache_keyed_def split: option.splits error.splits)
next
  case (r_iteration s env l)
  then show ?case by (simp add: cache_keyed_iteration)
next
  case (r_read s proc t0 t1 t2)
  then show ?case
    using get_process_info_kept [of s proc t0 t1 t2] by (simp add: read_kept_def)
next
  case (r_kill s p k)
  then show ?case by (simp add: cache_keyed_kill)
qed (simp_all add: cache_keyed_steps, simp_all add: cache_keyed_def request_update_def
    set_threshold_def set_update_interval_def shutdown_def)

lemma published_pids_enumerated:
  assumes "reachable s" and "update_event s \<or> 5 \<le> env_time env - l"
  shows "pid ` set (view (fst (monitor_iteration env (s, l)))
           (get_process_list (fst (monitor_iteration env (s, l))))) \<subseteq>
           set (enumerated_pids env)"
proof -
  have "update_event (cleanup_process_history (cleanup_process_cache
      (update_system_stats s (env_stats env)) (env_cache_time env)) (env_history_time env))
      = update_event s"
    by (rule update_event_prepared)
  with assms(2) show ?thesis
    using full_update_keyed [OF cache_keyed_prepared [OF cache_keyed_reachable [OF assms(1)]]]
    by (simp add: monitor_iteration_def get_process_list_def Let_def)
qed

lemma kill_process_event: "update_event (snd (kill_process s p k)) = update_event s"
  by (simp add: kill_process_def split: option.split error.split)

text \<open>
  C4, as stated, fails on the code: on Windows a denied termination falls back to
  \<open>taskkill\<close> and returns true; and after \<open>kill_process\<close> on a PID that no longer
  exists but is in the published list, \<open>get_process_list\<close> still returns that PID.
\<close>

theorem kill_process_counterexample:
  "fst (kill_process example_core 42
     \<lparr>k_terminate = Some AccessDenied, k_win32 = True, k_taskkill_raises = False\<rparr>) = True \<and>
   fst (kill_process published_core 1 (kill_outcome (Some NoSuchProcess))) = False \<and>
   map (\<lambda>i. (pid i, avg_cpu_percent i))
     (view (snd (kill_process published_core 1 (kill_outcome (Some NoSuchProcess))))
        (get_process_list
           (snd (kill_process published_core 1 (kill_outcome (Some NoSuchProcess))))))
     = [(2, 50), (1, 10)]"
  using example_iteration_list by (simp add: kill_process_def kill_outcome_def)

text \<open>
  C4, amended: \<open>kill_process\<close> returns a boolean in every case. It returns false,
  leaving the engine unchanged, when the process no longer exists and, on a platform
  other than Windows, when termination is denied; on Windows a denied termination
  falls back to \<open>taskkill\<close> and returns true. Whenever it returns true, the cache
  entry of the PID is gone. It leaves the published process list and its objects as
  they are; the list published by a later full update, in any state the engine
  reaches, holds no PID that the operating system does not list in that iteration.
\<close>

theorem kill_process_result:
  "(k_terminate k = Some NoSuchProcess \<longrightarrow> kill_process s p k = (False, s)) \<and>
   (k_terminate k = Some AccessDenied \<longrightarrow> \<not> k_win32 k \<longrightarrow> kill_process s p k = (False, s)) \<and>
   (k_terminate k = Some AccessDenied \<longrightarrow> k_win32 k \<longrightarrow> \<not> k_taskkill_raises k \<longrightarrow>
      fst (kill_process s p k)) \<and>
   (k_terminate k = None \<longrightarrow> fst (kill_process s p k)) \<and>
   (fst (kill_process s p k) \<longrightarrow> process_cache (snd (kill_process s p k)) p = None) \<and>
   get_process_list (snd (kill_process s p k)) = get_process_list s \<and>
   view (snd (kill_process s p k)) (get_process_list (snd (kill_process s p k))) =
     view s (get_process_list s) \<and>
   (reachable s \<longrightarrow> update_event s \<or> 5 \<le> env_time env - l \<longrightarrow>
      p \<notin> set (enumerated_pids env) \<longrightarrow>
      p \<notin> pid ` set (view (fst (monitor_iteration env (snd (kill_process s p k), l)))
        (get_process_list (fst (monitor_iteration env (snd (kill_process s p k), l))))))"
proof -
  have a: "k_terminate k = Some NoSuchProcess \<longrightarrow> kill_process s p k = (False, s)"
    by (simp add: kill_process_def)
  have b: "k_terminate k = Some AccessDenied \<longrightarrow> \<not> k_win32 k \<longrightarrow>
      kill_process s p k = (False, s)"
    by (simp add: kill_process_def)
  have c: "k_terminate k = Some AccessDenied \<longrightarrow> k_win32 k \<longrightarrow> \<not> k_taskkill_raises k \<longrightarrow>
      fst (kill_process s p k)"
    by (simp add: kill_process_def)
  have d: "k_terminate k = None \<longrightarrow> fst (kill_process s p k)"
    by (simp add: kill_process_def)
  have e: "fst (kill_process s p k) \<longrightarrow> process_cache (snd (kill_process s p k)) p = None"
    by (simp add: kill_process_def split: option.split error.split)
  have f: "get_process_list (snd (kill_process s p k)) = get_process_list s"
    by (simp add: get_process_list_def process_data_kill)
  have f': "view (snd (kill_process s p k)) (get_process_list (snd (kill_process s p k))) =
     view s (get_process_list s)"
    by (simp add: view_def get_process_list_def process_data_kill heap_kill)
  have g: "p \<notin> pid ` set (view (fst (monitor_iteration env (snd (kill_process s p k), l)))
        (get_process_list (fst (monitor_iteration env (snd (kill_process s p k), l)))))"
    if "reachable s" "update_event s \<or> 5 \<le> env_time env - l" "p \<notin> set (enumerated_pids env)"
  proof -
    have "reachable (snd (kill_process s p k))"
      using that(1) by (rule r_kill)
    moreover have "update_event (snd (kill_process s p k)) \<or> 5 \<le> env_time env - l"
      using that(2) by (simp add: kill_process_event)
    ultimately have "pid ` set (view (fst (monitor_iteration env (snd (kill_process s p k), l)))
        (get_process_list (fst (monitor_iteration env (snd (kill_process s p k), l)))))
        \<subseteq> set (enumerated_pids env)"
      by (rule published_pids_enumerated)
    with that(3) show ?thesis by auto
  qed
  from a b c d e f f' g show ?thesis by blast
qed

theorem kill_process_result_witness:
  "k_terminate (kill_outcome (Some NoSuchProcess)) = Some NoSuchProcess \<and>
   fst (kill_process published_core 1 (kill_outcome (Some NoSuchProcess))) = False \<and>
   k_terminate (kill_outcome (Some AccessDenied)) = Some AccessDenied \<and>
   \<not> k_win32 (kill_outcome (Some AccessDenied)) \<and>
   fst (kill_process cached_core 5 (kill_outcome (Some AccessDenied))) = False \<and>
   k_terminate (kill_outcome None) = None \<and>
   fst (kill_process cached_core 5 (kill_outcome None)) \<and>
   process_cache cached_core 5 \<noteq> None \<and>
   process_cache (snd (kill_process cached_core 5 (kill_outcome None))) 5 = None \<and>
   reachable published_core \<and>
   5 \<le> env_time example_env_later - 10 \<and>
   1 \<notin> set (enumerated_pids example_env_later) \<and>
   1 \<notin> pid ` set (view
     (fst (monitor_iteration example_env_later
        (snd (kill_process published_core 1 (kill_outcome (Some NoSuchProcess))), 10)))
     (get_process_list (fst (monitor_iteration example_env_later
        (snd (kill_process published_core 1 (kill_outcome (Some NoSuchProcess))), 10)))))"
proof -
  let ?X = "published_core"
  have r: "reachable ?X"
    by (rule reachable_published_core)
  have t: "5 \<le> env_time example_env_later - 10"
    "1 \<notin> set (enumerated_pids example_env_later)"
    by (simp_all add: example_env_later_def enumerated_pids_def readable_process_def)
  have k: "k_terminate (kill_outcome (Some NoSuchProcess)) = Some NoSuchProcess"
    "k_terminate (kill_outcome (Some AccessDenied)) = Some AccessDenied"
    "\<not> k_win32 (kill_outcome (Some AccessDenied))"
    "k_terminate (kill_outcome None) = None"
    by (simp_all add: kill_outcome_def)
  have c: "process_cache cached_core 5 \<noteq> None"
    by (simp add: cached_core_def)
  have w1: "fst (kill_process ?X 1 (kill_outcome (Some NoSuchProcess))) = False"
    using kill_process_result [of "kill_outcome (Some NoSuchProcess)" ?X 1 example_env 0] k(1)
    by simp
  have w2: "fst (kill_process cached_core 5 (kill_outcome (Some AccessDenied))) = False"
    using kill_process_result [of "kill_outcome (Some AccessDenied)" cached_core 5 example_env 0]
      k(2,3)
    by simp
  have w3: "fst (kill_process cached_core 5 (kill_outcome None))"
    "process_cache (snd (kill_process cached_core 5 (kill_outcome None))) 5 = None"
    using kill_process_result [of "kill_outcome None" cached_core 5 example_env 0] k(4)
    by simp_all
  have w4: "1 \<notin> pid ` set (view
     (fst (monitor_iteration example_env_later
        (snd (kill_process ?X 1 (kill_outcome (Some NoSuchProcess))), 10)))
     (get_process_list (fst (monitor_iteration example_env_later
        (snd (kill_process ?X 1 (kill_outcome (Some NoSuchProcess))), 10)))))"
    using kill_process_result [of "kill_outcome (Some NoSuchProcess)" ?X 1 example_env_later 10]
      r t
    by blast
  show ?thesis
    using k c r t w1 w2 w3 w4 by simp
qed


end
